theory Spec2Isabelle
  imports Main "HOL-Library.Sublist"
begin

section \<open>Scalar map (src/utils/misc.ts, lines 22-103)\<close>

text \<open>
  Strings are \<open>string\<close> (lists of characters). GraphQL names are ASCII
  (\<open>[_A-Za-z][_0-9A-Za-z]*\<close>), so every name the functions below receive is an
  ASCII string.

  \<open>gqlScalarTypesMap\<close> is the object literal of the source, as an association list in
  the order of its keys; \<open>gqlScalarTypes\<close> is \<open>Object.keys\<close> of it.
\<close>

definition gqlScalarTypesMap :: "(string \<times> string) list" where
  "gqlScalarTypesMap =
     [(''Boolean'', ''boolean''),
      (''Float'', ''number''),
      (''String'', ''string''),
      (''Int'', ''number''),
      (''ID'', ''any'')]"

definition gqlScalarTypes :: "string list" where
  "gqlScalarTypes = map fst gqlScalarTypesMap"

definition isGQLScalarType :: "string \<Rightarrow> bool" where
  "isGQLScalarType v = (v \<in> set gqlScalarTypes)"

definition transpileGQLTypeName :: "string \<Rightarrow> string" where
  "transpileGQLTypeName v =
     (if isGQLScalarType v
      then (case map_of gqlScalarTypesMap v of Some t \<Rightarrow> t | None \<Rightarrow> v)
      else v)"

definition makeNullable :: "string \<Rightarrow> string" where
  "makeNullable t = t @ '' | null''"

section \<open>Type reference resolver (getTypeNodeDefinition, getIOTypeDefinition)\<close>

text \<open>
  \<open>TypeNode\<close> is the syntax-tree form of a type reference: the three kinds the
  \<open>switch\<close> of getTypeNodeDefinition distinguishes.
\<close>

datatype TypeNode =
    NamedType string
  | ListType TypeNode
  | NonNullType TypeNode

text \<open>
  \<open>GraphQLType\<close> is the schema-object form. A named type object is identified by its
  name (names are unique in a schema); its kind and field map are read from the schema's
  type map, see \<open>GraphQLNamedType\<close> below. \<open>GraphQLNonNull t\<close> is what
  \<open>isNonNullType\<close> accepts, \<open>GraphQLList t\<close> what \<open>isListType\<close> accepts, and
  \<open>ofType\<close> is the constructor's argument.
\<close>

datatype GraphQLType =
    GraphQLNamed string
  | GraphQLList GraphQLType
  | GraphQLNonNull GraphQLType

text \<open>The result object \<open>{definition, importTypes}\<close>.\<close>

record DefinitionWithImportTypes =
  d_definition :: string
  d_importTypes :: "string list"

text \<open>
  The callback of the \<open>forEach\<close> loops that collect import types:
  \<open>if (!isGQLScalarType(t) && !importTypes.includes(t)) importTypes.push(t)\<close>.
\<close>

definition pushCustom :: "string list \<Rightarrow> string \<Rightarrow> string list" where
  "pushCustom importTypes t =
     (if \<not> isGQLScalarType t \<and> t \<notin> set importTypes then importTypes @ [t] else importTypes)"

text \<open>
  The callback \<open>if (!acc.includes(t)) acc.push(t)\<close> used by
  the entity and operation parsers.
\<close>

definition pushNew :: "string list \<Rightarrow> string \<Rightarrow> string list" where
  "pushNew acc t = (if t \<notin> set acc then acc @ [t] else acc)"

text \<open>
  getTypeNodeDefinition mutates the array \<open>importTypes\<close> it is given and returns that
  same array. The model passes the array's contents in and returns the contents after the
  call. In the \<open>ListType\<close> branch the recursive call receives the caller's array, so
  \<open>_importTypes\<close> and \<open>importTypes\<close> are one array: the \<open>forEach\<close> runs over its
  contents after the recursive call (a snapshot, since \<open>forEach\<close> does not visit
  elements appended during the loop) and pushes into the same array.
\<close>

fun getTypeNodeDefinition :: "TypeNode \<Rightarrow> string list \<Rightarrow> bool \<Rightarrow> DefinitionWithImportTypes" where
  "getTypeNodeDefinition (NonNullType t) importTypes nullable =
     getTypeNodeDefinition t importTypes False"
| "getTypeNodeDefinition (NamedType name) importTypes nullable =
     (let definition0 = transpileGQLTypeName name;
          importTypes1 = pushCustom importTypes name
      in \<lparr>d_definition = (if nullable then makeNullable definition0 else definition0),
          d_importTypes = importTypes1\<rparr>)"
| "getTypeNodeDefinition (ListType t) importTypes nullable =
     (let r = getTypeNodeDefinition t importTypes True;
          importTypes1 = foldl pushCustom (d_importTypes r) (d_importTypes r);
          definition0 = d_definition r @ ''[]''
      in \<lparr>d_definition = (if nullable then makeNullable definition0 else definition0),
          d_importTypes = importTypes1\<rparr>)"

fun getIOTypeDefinition :: "GraphQLType \<Rightarrow> string list \<Rightarrow> bool \<Rightarrow> DefinitionWithImportTypes" where
  "getIOTypeDefinition (GraphQLNonNull t) importTypes nullable =
     getIOTypeDefinition t importTypes False"
| "getIOTypeDefinition (GraphQLList t) importTypes nullable =
     (let r = getIOTypeDefinition t importTypes True;
          importTypes1 = foldl pushCustom (d_importTypes r) (d_importTypes r);
          definition0 = d_definition r @ ''[]''
      in \<lparr>d_definition = (if nullable then makeNullable definition0 else definition0),
          d_importTypes = importTypes1\<rparr>)"
| "getIOTypeDefinition (GraphQLNamed name) importTypes nullable =
     (let definition0 = transpileGQLTypeName name;
          importTypes1 = pushCustom importTypes name
      in \<lparr>d_definition = (if nullable then makeNullable definition0 else definition0),
          d_importTypes = importTypes1\<rparr>)"

text \<open>
  Structural equivalence of the two forms of a type reference: the schema-object form of a
  syntax-tree type node has the same wrapper layers around the same name.
\<close>

fun typeFromAST :: "TypeNode \<Rightarrow> GraphQLType" where
  "typeFromAST (NamedType name) = GraphQLNamed name"
| "typeFromAST (ListType t) = GraphQLList (typeFromAST t)"
| "typeFromAST (NonNullType t) = GraphQLNonNull (typeFromAST t)"

fun astFromType :: "GraphQLType \<Rightarrow> TypeNode" where
  "astFromType (GraphQLNamed name) = NamedType name"
| "astFromType (GraphQLList t) = ListType (astFromType t)"
| "astFromType (GraphQLNonNull t) = NonNullType (astFromType t)"

section \<open>Naming (toCamelCase and the compiled operation names)\<close>

text \<open>
  Failures of the program: the \<open>Error\<close> that getIn throws, with the path of its message
  \<open>Unable to find path ...\<close>, and the \<open>TypeError\<close> that the runtime raises on reading a
  property of \<open>undefined\<close>.
\<close>

datatype error =
    PathNotFound string
  | TypeError

definition digits :: string where
  "digits = ''0123456789''"

definition lowerLetters :: string where
  "lowerLetters = ''abcdefghijklmnopqrstuvwxyz''"

definition upperLetters :: string where
  "upperLetters = ''ABCDEFGHIJKLMNOPQRSTUVWXYZ''"

text \<open>
  The character class \<open>[\da-z]\<close> under the flag \<open>i\<close>: a digit or a letter of either
  case.
\<close>

definition isAlnum :: "char \<Rightarrow> bool" where
  "isAlnum c = (c \<in> set digits \<or> c \<in> set lowerLetters \<or> c \<in> set upperLetters)"

text \<open>The characters that \<open>.\<close> does not match: line feed and carriage return.\<close>

definition isLineTerminator :: "char \<Rightarrow> bool" where
  "isLineTerminator c = (c = CHR 0x0A \<or> c = CHR 0x0D)"

text \<open>\<open>toUpperCase\<close> of one ASCII character.\<close>

definition toUpperChar :: "char \<Rightarrow> char" where
  "toUpperChar c = (case map_of (zip lowerLetters upperLetters) c of Some u \<Rightarrow> u | None \<Rightarrow> c)"

text \<open>
  \<open>text.replace(/[^\da-z].?/gi, match => match[1] ? match[1].toUpperCase() : '')\<close>:
  scanning from the left, a letter or digit is kept; any other character starts a match,
  which takes the next character too when there is one and it is not a line terminator.
  A match of two characters is replaced by the second one in upper case, a match of one
  character by the empty string. The model is exact on ASCII text, where \<open>toUpperCase\<close>
  changes the letters a to z only and the line terminators are the two above.
\<close>

fun cleared :: "string \<Rightarrow> string" where
  "cleared [] = []"
| "cleared [c] = (if isAlnum c then [c] else [])"
| "cleared (c # d # rest) =
     (if isAlnum c then c # cleared (d # rest)
      else if isLineTerminator d then cleared (d # rest)
      else toUpperChar d # cleared rest)"

text \<open>
  \<open>cleared[0].toUpperCase() + cleared.slice(1)\<close>: when \<open>cleared\<close> is empty,
  \<open>cleared[0]\<close> is \<open>undefined\<close> and the call of \<open>toUpperCase\<close> raises a TypeError.
\<close>

definition toCamelCase :: "string \<Rightarrow> error + string" where
  "toCamelCase text =
     (case cleared text of
        [] \<Rightarrow> Inl TypeError
      | c # cs \<Rightarrow> Inr (toUpperChar c # cs))"

definition getCompiledOperationName :: "string \<Rightarrow> string \<Rightarrow> error + string" where
  "getCompiledOperationName name operation =
     (case toCamelCase operation of
        Inl e \<Rightarrow> Inl e
      | Inr op \<Rightarrow> Inr (name @ op))"

definition getCompiledOperationNamespaceName :: "string \<Rightarrow> string \<Rightarrow> error + string" where
  "getCompiledOperationNamespaceName name operation =
     (case toCamelCase name of
        Inl e \<Rightarrow> Inl e
      | Inr n \<Rightarrow>
          (case toCamelCase operation of
             Inl e \<Rightarrow> Inl e
           | Inr op \<Rightarrow> Inr (n @ op)))"

text \<open>
  The inputs of which the replacement leaves nothing, described on the input itself: the
  empty string, and a character that is no letter or digit followed by line terminators
  only.
\<close>

definition clearsToNothing :: "string \<Rightarrow> bool" where
  "clearsToNothing s =
     (case s of
        [] \<Rightarrow> True
      | c # ls \<Rightarrow> \<not> isAlnum c \<and> list_all isLineTerminator ls)"

section \<open>The schema's type graph\<close>

text \<open>
  The \<open>kind\<close> of the definition node of a named type, and the part of the node that
  getSorter reads: \<open>astNode.kind\<close> and \<open>astNode.loc.start\<close>.
\<close>

datatype TypeDefinitionKind =
    ScalarTypeDefinition
  | EnumTypeDefinition
  | InterfaceTypeDefinition
  | InputObjectTypeDefinition
  | UnionTypeDefinition
  | ObjectTypeDefinition

record TypeDefinitionNode =
  n_kind :: TypeDefinitionKind
  n_loc_start :: int

text \<open>
  The category of a named type object, as the predicates \<open>isScalarType\<close>,
  \<open>isObjectType\<close>, \<open>isInterfaceType\<close>, \<open>isUnionType\<close>, \<open>isEnumType\<close> and
  \<open>isInputObjectType\<close> of the graphql library tell it.
\<close>

datatype TypeKind =
    ScalarKind
  | ObjectKind
  | InterfaceKind
  | UnionKind
  | EnumKind
  | InputObjectKind

record GraphQLArgument =
  a_name :: string
  a_description :: "string option"
  a_type :: GraphQLType

text \<open>
  A field of an object, interface or input object type (an input field has no arguments).
\<close>

record GraphQLField =
  f_name :: string
  f_description :: "string option"
  f_type :: GraphQLType
  f_args :: "GraphQLArgument list"

text \<open>
  A named type object. \<open>t_fields\<close> is its field map in declaration order
  (\<open>Object.values(type.getFields())\<close>); the key of a field in the map is its name, so the
  names of the list are pairwise different in every type the library builds. Types without
  fields have the empty list. \<open>t_astNode\<close> is \<open>None\<close> for a type that has no definition
  node.
\<close>

record GraphQLNamedType =
  t_name :: string
  t_description :: "string option"
  t_kind :: TypeKind
  t_fields :: "GraphQLField list"
  t_astNode :: "TypeDefinitionNode option"

text \<open>
  The object graph of a schema: a leaf \<open>GraphQLNamed n\<close> of a type reference points to the
  named type object \<open>typeMap n\<close>. The map is total, as every reference of a built schema
  points to a type object.
\<close>

type_synonym TypeMap = "string \<Rightarrow> GraphQLNamedType"

text \<open>
  The schema: its three root types (\<open>getQueryType()\<close>, \<open>getMutationType()\<close>,
  \<open>getSubscriptionType()\<close>, each \<open>None\<close> when the schema configures no such root) and
  its type objects.
\<close>

record GraphQLSchema =
  s_queryType :: "GraphQLNamedType option"
  s_mutationType :: "GraphQLNamedType option"
  s_subscriptionType :: "GraphQLNamedType option"
  s_typeMap :: TypeMap

section \<open>Top-level declaration ordering (getSorter)\<close>

text \<open>The object literal \<open>weights\<close> of getSorter.\<close>

fun weights :: "TypeDefinitionKind \<Rightarrow> int" where
  "weights ScalarTypeDefinition = 0"
| "weights EnumTypeDefinition = 1"
| "weights InterfaceTypeDefinition = 2"
| "weights InputObjectTypeDefinition = 3"
| "weights UnionTypeDefinition = 4"
| "weights ObjectTypeDefinition = 5"

text \<open>
  The comparator returned by \<open>getSorter(display)\<close>. A definition node carries its
  location (\<open>loc\<close>), as every node of a document parsed with locations does.
\<close>

definition getSorter :: "string \<Rightarrow> GraphQLNamedType \<Rightarrow> GraphQLNamedType \<Rightarrow> int" where
  "getSorter display a b =
     (if t_astNode a \<noteq> None \<or> t_astNode b \<noteq> None
      then (case t_astNode a of
              None \<Rightarrow> -1
            | Some na \<Rightarrow>
                (case t_astNode b of
                   None \<Rightarrow> 1
                 | Some nb \<Rightarrow>
                     (if display = ''as-is''
                      then n_loc_start na - n_loc_start nb
                      else weights (n_kind na) - weights (n_kind nb))))
      else 0)"

text \<open>
  The category order as the specification words it:
  scalar, enum, interface, input object, union, object.
\<close>

definition categoryOrder :: "TypeDefinitionKind list" where
  "categoryOrder =
     [ScalarTypeDefinition, EnumTypeDefinition, InterfaceTypeDefinition,
      InputObjectTypeDefinition, UnionTypeDefinition, ObjectTypeDefinition]"

fun position :: "'a list \<Rightarrow> 'a \<Rightarrow> nat" where
  "position [] k = 0"
| "position (x # xs) k = (if x = k then 0 else Suc (position xs k))"

definition categoryBefore :: "TypeDefinitionKind \<Rightarrow> TypeDefinitionKind \<Rightarrow> bool" where
  "categoryBefore j k = (position categoryOrder j < position categoryOrder k)"

section \<open>Operation root and field-path navigator\<close>

text \<open>
  The operation kind is the string \<open>query\<close>, \<open>mutation\<close> or \<open>subscription\<close>.
  The getters of the schema return \<open>undefined\<close> (\<open>None\<close>) for a root that is not
  configured, and getOperationRootNode returns what they return.
\<close>

definition getOperationRootNode :: "GraphQLSchema \<Rightarrow> string \<Rightarrow> GraphQLNamedType option" where
  "getOperationRootNode schema operation =
     (if operation = ''query'' then s_queryType schema
      else if operation = ''mutation'' then s_mutationType schema
      else s_subscriptionType schema)"

fun getFirstNonWrappingType :: "TypeMap \<Rightarrow> GraphQLType \<Rightarrow> GraphQLNamedType" where
  "getFirstNonWrappingType typeMap (GraphQLNonNull t) = getFirstNonWrappingType typeMap t"
| "getFirstNonWrappingType typeMap (GraphQLList t) = getFirstNonWrappingType typeMap t"
| "getFirstNonWrappingType typeMap (GraphQLNamed n) = typeMap n"

text \<open>\<open>text.split(sep)\<close> for a separator of one character.\<close>

fun js_split :: "char \<Rightarrow> string \<Rightarrow> string list" where
  "js_split sep [] = [[]]"
| "js_split sep (c # cs) =
     (if c = sep then [] # js_split sep cs
      else (case js_split sep cs of
              [] \<Rightarrow> [[c]]
            | p # ps \<Rightarrow> (c # p) # ps))"

text \<open>The lookup \<open>type.getFields()[key]\<close> in the field map of a type.\<close>

definition lookupField :: "GraphQLField list \<Rightarrow> string \<Rightarrow> GraphQLField option" where
  "lookupField fs key = find (\<lambda>f. f_name f = key) fs"

text \<open>
  \<open>rootNode.toConfig().fields\<close> of the graphql library: a map from field name to field
  configuration. A field configuration has the description and the type of the field, and
  its arguments as a map from argument name to argument configuration; it has no name.
\<close>

record GraphQLArgumentConfig =
  ac_description :: "string option"
  ac_type :: GraphQLType

record GraphQLFieldConfig =
  fc_description :: "string option"
  fc_type :: GraphQLType
  fc_args :: "(string \<times> GraphQLArgumentConfig) list"

definition toArgumentConfig :: "GraphQLArgument \<Rightarrow> GraphQLArgumentConfig" where
  "toArgumentConfig a = \<lparr>ac_description = a_description a, ac_type = a_type a\<rparr>"

definition toFieldConfig :: "GraphQLField \<Rightarrow> GraphQLFieldConfig" where
  "toFieldConfig f =
     \<lparr>fc_description = f_description f, fc_type = f_type f,
      fc_args = map (\<lambda>a. (a_name a, toArgumentConfig a)) (f_args f)\<rparr>"

definition toConfigFields :: "GraphQLNamedType \<Rightarrow> (string \<times> GraphQLFieldConfig) list" where
  "toConfigFields type = map (\<lambda>f. (f_name f, toFieldConfig f)) (t_fields type)"

text \<open>
  What getIn holds in \<open>field\<close> and returns, \<open>GraphQLField | GraphQLFieldConfig\<close>: the
  field configuration of the root for the first segment, a field object of a nested type
  for every later segment. \<open>fieldType\<close> is the property \<open>type\<close>, which both have.
\<close>

datatype FieldOrConfig =
    FieldConfig GraphQLFieldConfig
  | FieldObject GraphQLField

fun fieldType :: "FieldOrConfig \<Rightarrow> GraphQLType" where
  "fieldType (FieldConfig c) = fc_type c"
| "fieldType (FieldObject f) = f_type f"

text \<open>
  The \<open>for\<close> loop of getIn, entered with \<open>restPartials[i] = partial\<close> and the partials
  after it in \<open>rest\<close>; the test \<open>i === restPartials.length - 1\<close> is \<open>rest = []\<close>.
\<close>

fun getIn_loop :: "TypeMap \<Rightarrow> string \<Rightarrow> FieldOrConfig \<Rightarrow> string \<Rightarrow> string list \<Rightarrow> error + FieldOrConfig" where
  "getIn_loop typeMap path field partial rest =
     (let type = getFirstNonWrappingType typeMap (fieldType field)
      in if t_kind type \<noteq> ObjectKind \<and> t_kind type \<noteq> InterfaceKind
         then Inl (PathNotFound path)
         else (case lookupField (t_fields type) partial of
                 None \<Rightarrow> Inl (PathNotFound path)
               | Some field1 \<Rightarrow>
                   (case rest of
                      [] \<Rightarrow> Inr (FieldObject field1)
                    | partial1 # rest1 \<Rightarrow>
                        getIn_loop typeMap path (FieldObject field1) partial1 rest1)))"

text \<open>
  getIn. The root node is \<open>None\<close> when the caller passes the \<open>undefined\<close> that
  getOperationRootNode returned; \<open>rootNode.toConfig()\<close> then raises a TypeError.
  \<open>path.split('.')\<close> always has a first element.
\<close>

definition getIn :: "TypeMap \<Rightarrow> GraphQLNamedType option \<Rightarrow> string \<Rightarrow> error + FieldOrConfig" where
  "getIn typeMap rootNode path =
     (case js_split CHR ''.'' path of
        [] \<Rightarrow> Inl (PathNotFound path)
      | firstPartial # restPartials \<Rightarrow>
          (case rootNode of
             None \<Rightarrow> Inl TypeError
           | Some root \<Rightarrow>
               (case map_of (toConfigFields root) firstPartial of
                  None \<Rightarrow> Inl (PathNotFound path)
                | Some field \<Rightarrow>
                    (case restPartials of
                       [] \<Rightarrow> Inr (FieldConfig field)
                     | partial # rest \<Rightarrow>
                         getIn_loop typeMap path (FieldConfig field) partial rest))))"

text \<open>
  Literal descent, as the specification words it, on the declared fields. The wrapper
  layers of a type reference are its \<open>List\<close> and \<open>NonNull\<close> constructors around the
  named type; \<open>namedTypeUnder\<close> removes them and gives the name that is left. The first
  segment is looked up among the fields the root type declares. Every later segment is
  looked up among the fields of the type named under the wrappers of the current field's
  declared type, and only if that type is an object or an interface type. \<open>None\<close> means
  that the path cannot be found.
\<close>

primrec namedTypeUnder :: "GraphQLType \<Rightarrow> string" where
  "namedTypeUnder (GraphQLNamed n) = n"
| "namedTypeUnder (GraphQLList t) = namedTypeUnder t"
| "namedTypeUnder (GraphQLNonNull t) = namedTypeUnder t"

definition canDescendInto :: "GraphQLNamedType \<Rightarrow> bool" where
  "canDescendInto t = (t_kind t \<in> {ObjectKind, InterfaceKind})"

definition hop :: "TypeMap \<Rightarrow> GraphQLField option \<Rightarrow> string \<Rightarrow> GraphQLField option" where
  "hop typeMap cur seg =
     (case cur of
        None \<Rightarrow> None
      | Some f \<Rightarrow>
          (if canDescendInto (typeMap (namedTypeUnder (f_type f)))
           then lookupField (t_fields (typeMap (namedTypeUnder (f_type f)))) seg
           else None))"

definition literalDescent :: "TypeMap \<Rightarrow> GraphQLNamedType \<Rightarrow> string list \<Rightarrow> GraphQLField option" where
  "literalDescent typeMap root segs =
     (case segs of
        [] \<Rightarrow> None
      | s # ss \<Rightarrow> foldl (hop typeMap) (lookupField (t_fields root) s) ss)"

text \<open>
  What getIn returns for a field that literal descent found: for a path of one segment
  the root's configuration of the field, for a longer path the field object itself.
\<close>

definition resultOf :: "string list \<Rightarrow> GraphQLField \<Rightarrow> FieldOrConfig" where
  "resultOf segs g = (if length segs = 1 then FieldConfig (toFieldConfig g) else FieldObject g)"

section \<open>Entity extraction (parseObjectOrInterfaceType, parseInputObjectType)\<close>

text \<open>
  The intermediate records. \<open>PreparedObject\<close> is \<open>{name, fields}\<close>;
  \<open>PreparedObjectWithImports\<close> adds the \<open>importTypes\<close> array that the argument
  records carry. A description is \<open>None\<close> where the source leaves the property out or the
  schema gives none.
\<close>

record PreparedObjectField =
  pf_name :: string
  pf_description :: "string option"
  pf_type :: string

record PreparedObject =
  po_name :: string
  po_fields :: "PreparedObjectField list"

record PreparedObjectWithImports = PreparedObject +
  po_importTypes :: "string list"

record EntityNamespaceField =
  nf_name :: string
  nf_description :: "string option"
  nf_args :: "PreparedObjectWithImports option"
  nf_type :: string

record EntityNamespace =
  en_name :: string
  en_description :: "string option"
  en_fields :: "EntityNamespaceField list"

text \<open>The entity record (its constant tag \<open>__type: 'entity'\<close> is left out).\<close>

record Entity =
  e_fields :: PreparedObject
  e_namespace :: EntityNamespace
  e_importTypes :: "string list"

text \<open>
  The callback of \<open>args.reduce\<close>: every call of getIOTypeDefinition gets a fresh
  import array and the default \<open>nullable = true\<close>.
\<close>

definition argumentStep :: "PreparedObjectWithImports \<Rightarrow> GraphQLArgument \<Rightarrow> PreparedObjectWithImports" where
  "argumentStep argAcc arg =
     (let r = getIOTypeDefinition (a_type arg) [] True
      in argAcc\<lparr>po_fields := po_fields argAcc @
                    [\<lparr>pf_name = a_name arg, pf_description = a_description arg,
                      pf_type = d_definition r\<rparr>],
                po_importTypes := foldl pushNew (po_importTypes argAcc) (d_importTypes r)\<rparr>)"

definition emptyArguments :: PreparedObjectWithImports where
  "emptyArguments = \<lparr>po_name = ''Arguments'', po_fields = [], po_importTypes = []\<rparr>"

definition emptyEntity :: "string \<Rightarrow> string option \<Rightarrow> Entity" where
  "emptyEntity formattedName description =
     \<lparr>e_fields = \<lparr>po_name = formattedName, po_fields = []\<rparr>,
      e_namespace = \<lparr>en_name = formattedName, en_description = description, en_fields = []\<rparr>,
      e_importTypes = []\<rparr>"

text \<open>The callback of the \<open>reduce\<close> over the fields of an object or interface type.\<close>

definition objectFieldStep :: "string \<Rightarrow> Entity \<Rightarrow> GraphQLField \<Rightarrow> Entity" where
  "objectFieldStep formattedName acc f =
     (let flat = \<lparr>pf_name = f_name f, pf_description = f_description f,
                  pf_type = formattedName @ ''.'' @ f_name f\<rparr>;
          preparedArguments = foldl argumentStep emptyArguments (f_args f);
          r = getIOTypeDefinition (f_type f) [] True;
          importTypes1 = foldl pushNew (e_importTypes acc)
                           (d_importTypes r @ po_importTypes preparedArguments);
          nsp = \<lparr>nf_name = f_name f, nf_description = f_description f,
                 nf_args = Some preparedArguments, nf_type = d_definition r\<rparr>
      in \<lparr>e_fields = (e_fields acc)\<lparr>po_fields := po_fields (e_fields acc) @ [flat]\<rparr>,
          e_namespace = (e_namespace acc)\<lparr>en_fields := en_fields (e_namespace acc) @ [nsp]\<rparr>,
          e_importTypes = importTypes1\<rparr>)"

text \<open>
  parseObjectOrInterfaceType: \<open>toCamelCase(name)\<close> can raise, then the fields are folded
  in declaration order.
\<close>

definition parseObjectOrInterfaceType :: "GraphQLNamedType \<Rightarrow> error + Entity" where
  "parseObjectOrInterfaceType type =
     (case toCamelCase (t_name type) of
        Inl e \<Rightarrow> Inl e
      | Inr formattedName \<Rightarrow>
          Inr (foldl (objectFieldStep formattedName)
                 (emptyEntity formattedName (t_description type)) (t_fields type)))"

text \<open>The callback of the \<open>reduce\<close> over the fields of an input object type.\<close>

definition inputFieldStep :: "string \<Rightarrow> Entity \<Rightarrow> GraphQLField \<Rightarrow> Entity" where
  "inputFieldStep formattedName acc f =
     (let flat = \<lparr>pf_name = f_name f, pf_description = f_description f,
                  pf_type = formattedName @ ''.'' @ f_name f\<rparr>;
          r = getIOTypeDefinition (f_type f) [] True;
          importTypes1 = foldl pushNew (e_importTypes acc) (d_importTypes r);
          nsp = \<lparr>nf_name = f_name f, nf_description = f_description f,
                 nf_args = None, nf_type = d_definition r\<rparr>
      in \<lparr>e_fields = (e_fields acc)\<lparr>po_fields := po_fields (e_fields acc) @ [flat]\<rparr>,
          e_namespace = (e_namespace acc)\<lparr>en_fields := en_fields (e_namespace acc) @ [nsp]\<rparr>,
          e_importTypes = importTypes1\<rparr>)"

definition parseInputObjectType :: "GraphQLNamedType \<Rightarrow> error + Entity" where
  "parseInputObjectType type =
     (case toCamelCase (t_name type) of
        Inl e \<Rightarrow> Inl e
      | Inr formattedName \<Rightarrow>
          Inr (foldl (inputFieldStep formattedName)
                 (emptyEntity formattedName (t_description type)) (t_fields type)))"

section \<open>Operations (selection projector and operation assembler)\<close>

text \<open>
  A selection node: a field with its name and optional selection set, a fragment spread,
  or an inline fragment with its optional type condition. A selection set is the list of
  its selections.
\<close>

datatype SelectionNode =
    Field string "SelectionNode list option"
  | FragmentSpread string
  | InlineFragment "string option" "SelectionNode list"

text \<open>The test \<open>s.kind === 'Field'\<close> on a selection.\<close>

fun isField :: "SelectionNode \<Rightarrow> bool" where
  "isField (Field name sel) = True"
| "isField (FragmentSpread name) = False"
| "isField (InlineFragment cond sel) = False"

text \<open>A variable definition: \<open>variable.name.value\<close> and \<open>type\<close>.\<close>

record VariableDefinitionNode =
  vd_variable :: string
  vd_type :: TypeNode

text \<open>
  The operation node: \<open>name\<close> is \<open>None\<close> for an anonymous operation, \<open>loc\<close> gives the
  range of the operation in the document.
\<close>

record OperationDefinitionNode =
  od_name :: "string option"
  od_operation :: string
  od_selectionSet :: "SelectionNode list"
  od_variableDefinitions :: "VariableDefinitionNode list"
  od_loc_start :: nat
  od_loc_end :: nat

text \<open>The synthetic type \<open>{name, fields, outputType}\<close> of a composite namespace field.\<close>

record CompositeType =
  ct_name :: string
  ct_fields :: "PreparedObjectField list"
  ct_outputType :: GraphQLType

text \<open>
  An operation namespace field: \<open>LeafField name type\<close> is \<open>{name, type}\<close> with the
  resolved type of the field; \<open>CompositeField name type fields\<close> is
  \<open>{name, type, fields}\<close> for a field with a selection set.
\<close>

datatype OperationNamespaceField =
    LeafField string DefinitionWithImportTypes
  | CompositeField string CompositeType "OperationNamespaceField list"

record OperationRootNamespace =
  ns_name :: string
  ns_fields :: "OperationNamespaceField list"
  ns_args :: PreparedObjectWithImports
  ns_importTypes :: "string list"

record Operation =
  o_name :: string
  o_signature :: string
  o_selection :: PreparedObject
  o_namespace :: OperationRootNamespace
  o_importTypes :: "string list"

definition variableStep :: "PreparedObjectWithImports \<Rightarrow> VariableDefinitionNode \<Rightarrow> PreparedObjectWithImports" where
  "variableStep acc n =
     (let r = getTypeNodeDefinition (vd_type n) [] True
      in acc\<lparr>po_fields := po_fields acc @
                 [\<lparr>pf_name = vd_variable n, pf_description = None, pf_type = d_definition r\<rparr>],
             po_importTypes := foldl pushNew (po_importTypes acc) (d_importTypes r)\<rparr>)"

definition parseOperationVariableDefinitions :: "VariableDefinitionNode list \<Rightarrow> PreparedObjectWithImports" where
  "parseOperationVariableDefinitions nodes = foldl variableStep emptyArguments nodes"

text \<open>
  The callback of the \<open>reduce\<close> of selectionSetToObjectFields: only a selection of kind
  \<open>Field\<close> pushes an entry.
\<close>

fun objectFieldOfSelection :: "string \<Rightarrow> PreparedObjectField list \<Rightarrow> SelectionNode \<Rightarrow> PreparedObjectField list" where
  "objectFieldOfSelection nspName acc (Field name sel) =
     acc @ [\<lparr>pf_name = name, pf_description = None, pf_type = nspName @ ''.'' @ name\<rparr>]"
| "objectFieldOfSelection nspName acc (FragmentSpread name) = acc"
| "objectFieldOfSelection nspName acc (InlineFragment cond sel) = acc"

definition selectionSetToObjectFields :: "SelectionNode list \<Rightarrow> string \<Rightarrow> PreparedObjectField list" where
  "selectionSetToObjectFields selectionSet nspName =
     foldl (objectFieldOfSelection nspName) [] selectionSet"

text \<open>
  selectionSetToNamespaceFields and fieldNodeToNamespaceField call each other. The
  \<open>reduce\<close> runs from the left and stops at the first selection whose conversion raises.
  fieldNodeToNamespaceField takes the name and the selection set of its field node. The
  \<open>reduce\<close> written inline in its composite branch is the one of
  selectionSetToObjectFields with the node name as namespace name.
\<close>

fun selectionSetToNamespaceFields ::
      "TypeMap \<Rightarrow> SelectionNode list \<Rightarrow> GraphQLNamedType option \<Rightarrow> string \<Rightarrow> error + OperationNamespaceField list"
  and fieldNodeToNamespaceField ::
      "TypeMap \<Rightarrow> string \<Rightarrow> SelectionNode list option \<Rightarrow> GraphQLNamedType option \<Rightarrow> string \<Rightarrow> error + OperationNamespaceField"
where
  "selectionSetToNamespaceFields typeMap [] rootNode path = Inr []"
| "selectionSetToNamespaceFields typeMap (Field name sel # rest) rootNode path =
     (case fieldNodeToNamespaceField typeMap name sel rootNode path of
        Inl e \<Rightarrow> Inl e
      | Inr f \<Rightarrow>
          (case selectionSetToNamespaceFields typeMap rest rootNode path of
             Inl e \<Rightarrow> Inl e
           | Inr fs \<Rightarrow> Inr (f # fs)))"
| "selectionSetToNamespaceFields typeMap (FragmentSpread name # rest) rootNode path =
     selectionSetToNamespaceFields typeMap rest rootNode path"
| "selectionSetToNamespaceFields typeMap (InlineFragment cond sel # rest) rootNode path =
     selectionSetToNamespaceFields typeMap rest rootNode path"
| "fieldNodeToNamespaceField typeMap nodeName None rootNode prevPath =
     (let path = (if length prevPath > 0 then prevPath @ ''.'' @ nodeName else nodeName)
      in case getIn typeMap rootNode path of
           Inl e \<Rightarrow> Inl e
         | Inr field \<Rightarrow> Inr (LeafField nodeName (getIOTypeDefinition (fieldType field) [] True)))"
| "fieldNodeToNamespaceField typeMap nodeName (Some selectionSet) rootNode prevPath =
     (let path = (if length prevPath > 0 then prevPath @ ''.'' @ nodeName else nodeName)
      in case getIn typeMap rootNode path of
           Inl e \<Rightarrow> Inl e
         | Inr field \<Rightarrow>
             (case selectionSetToNamespaceFields typeMap selectionSet rootNode path of
                Inl e \<Rightarrow> Inl e
              | Inr fs \<Rightarrow>
                  Inr (CompositeField nodeName
                         \<lparr>ct_name = nodeName,
                          ct_fields = selectionSetToObjectFields selectionSet nodeName,
                          ct_outputType = fieldType field\<rparr>
                         fs)))"

text \<open>
  getImportTypes: a leaf has \<open>type.importTypes\<close> and no \<open>fields\<close>, a composite has
  \<open>fields\<close> (here \<open>children\<close>) and no \<open>type.importTypes\<close>; \<open>addType\<close> is
  \<open>pushNew\<close> on \<open>types\<close>.
\<close>

fun getImportTypes :: "OperationNamespaceField \<Rightarrow> string list" where
  "getImportTypes (LeafField name type) = foldl pushNew [] (d_importTypes type)"
| "getImportTypes (CompositeField name type children) =
     foldl pushNew [] (concat (map getImportTypes children))"

definition selectionSetToRootNamespace ::
    "TypeMap \<Rightarrow> SelectionNode list \<Rightarrow> string \<Rightarrow> PreparedObjectWithImports \<Rightarrow> GraphQLNamedType option
       \<Rightarrow> error + OperationRootNamespace" where
  "selectionSetToRootNamespace typeMap selectionSet compiledName args rootNode =
     (case selectionSetToNamespaceFields typeMap selectionSet rootNode [] of
        Inl e \<Rightarrow> Inl e
      | Inr nspFields \<Rightarrow>
          Inr \<lparr>ns_name = compiledName,
               ns_fields = nspFields,
               ns_args = args,
               ns_importTypes = concat (map getImportTypes nspFields)\<rparr>)"

text \<open>
  parseOperationDefinitionNode, in the order of the source: \<open>name.value\<close> raises a
  TypeError for an anonymous operation, then the two compiled names, the root node, the
  flat selection, the arguments and the namespace. \<open>slice(start, end)\<close> is
  \<open>take (end - start) (drop start s)\<close>.
\<close>

definition parseOperationDefinitionNode ::
    "OperationDefinitionNode \<Rightarrow> GraphQLSchema \<Rightarrow> string \<Rightarrow> error + Operation" where
  "parseOperationDefinitionNode node schema operationsString =
     (case od_name node of
        None \<Rightarrow> Inl TypeError
      | Some nameValue \<Rightarrow>
     (case getCompiledOperationName nameValue (od_operation node) of
        Inl e \<Rightarrow> Inl e
      | Inr operationName \<Rightarrow>
     (case getCompiledOperationNamespaceName nameValue (od_operation node) of
        Inl e \<Rightarrow> Inl e
      | Inr operationNamespaceName \<Rightarrow>
     (let rootNode = getOperationRootNode schema (od_operation node);
          selection = \<lparr>po_name = operationName,
                       po_fields = selectionSetToObjectFields (od_selectionSet node)
                                     operationNamespaceName\<rparr>;
          args = parseOperationVariableDefinitions (od_variableDefinitions node);
          importTypes1 = foldl pushNew [] (po_importTypes args)
      in case selectionSetToRootNamespace (s_typeMap schema) (od_selectionSet node)
                operationNamespaceName args rootNode of
           Inl e \<Rightarrow> Inl e
         | Inr namespace \<Rightarrow>
             Inr \<lparr>o_name = operationName,
                  o_signature = take (od_loc_end node - od_loc_start node)
                                  (drop (od_loc_start node) operationsString),
                  o_selection = selection,
                  o_namespace = namespace,
                  o_importTypes = foldl pushNew importTypes1 (ns_importTypes namespace)\<rparr>))))"

section \<open>The example schema of the repository\<close>

text \<open>
  The types \<open>PostAuthor\<close>, \<open>PostedPost\<close>, \<open>PostsInput\<close> and \<open>Query\<close> of the
  repository's example schema, with the start offsets of their definitions in that file.
\<close>

definition examplePostAuthor :: GraphQLNamedType where
  "examplePostAuthor =
     \<lparr>t_name = ''PostAuthor'', t_description = Some ''Author of post'', t_kind = ObjectKind,
      t_fields =
       [\<lparr>f_name = ''name'', f_description = Some ''User full name'',
        f_type = GraphQLNonNull (GraphQLNamed ''String''), f_args = []\<rparr>,
        \<lparr>f_name = ''registeredAt'', f_description = Some ''Date when user was registered'',
        f_type = GraphQLNonNull (GraphQLNamed ''DateTime''), f_args = []\<rparr>,
        \<lparr>f_name = ''bannedAt'', f_description = Some ''Date when user was banned'',
        f_type = GraphQLNamed ''DateTime'', f_args = []\<rparr>],
      t_astNode = Some \<lparr>n_kind = ObjectTypeDefinition, n_loc_start = 0\<rparr>\<rparr>"

definition examplePostedPost :: GraphQLNamedType where
  "examplePostedPost =
     \<lparr>t_name = ''PostedPost'', t_description = Some ''Post that already was posted'', t_kind = ObjectKind,
      t_fields =
       [\<lparr>f_name = ''id'', f_description = Some ''Post id'',
        f_type = GraphQLNonNull (GraphQLNamed ''ID''), f_args = []\<rparr>,
        \<lparr>f_name = ''author'', f_description = Some ''Post author'',
        f_type = GraphQLNonNull (GraphQLNamed ''PostAuthor''), f_args = []\<rparr>,
        \<lparr>f_name = ''text'', f_description = Some ''Post content'',
        f_type = GraphQLNonNull (GraphQLNamed ''String''), f_args = []\<rparr>,
        \<lparr>f_name = ''category'', f_description = Some ''Post category'',
        f_type = GraphQLNonNull (GraphQLNamed ''CATEGORY''), f_args = []\<rparr>,
        \<lparr>f_name = ''createdAt'', f_description = Some ''Date when post was created'',
        f_type = GraphQLNonNull (GraphQLNamed ''DateTime''), f_args = []\<rparr>,
        \<lparr>f_name = ''updatedAt'', f_description = Some ''Date when post was updated'',
        f_type = GraphQLNamed ''DateTime'', f_args = []\<rparr>,
        \<lparr>f_name = ''deletedAt'', f_description = Some ''Date when post was deleted'',
        f_type = GraphQLNamed ''DateTime'', f_args = []\<rparr>,
        \<lparr>f_name = ''postedAt'', f_description = Some ''Date when post was posted'',
        f_type = GraphQLNonNull (GraphQLNamed ''DateTime''), f_args = []\<rparr>],
      t_astNode = Some \<lparr>n_kind = ObjectTypeDefinition, n_loc_start = 510\<rparr>\<rparr>"

definition examplePostsInput :: GraphQLNamedType where
  "examplePostsInput =
     \<lparr>t_name = ''PostsInput'', t_description = Some ''Input to get posts'', t_kind = InputObjectKind,
      t_fields =
       [\<lparr>f_name = ''limit'', f_description = None,
        f_type = GraphQLNonNull (GraphQLNamed ''Int''), f_args = []\<rparr>,
        \<lparr>f_name = ''offset'', f_description = None,
        f_type = GraphQLNonNull (GraphQLNamed ''Int''), f_args = []\<rparr>],
      t_astNode = Some \<lparr>n_kind = InputObjectTypeDefinition, n_loc_start = 1433\<rparr>\<rparr>"

definition exampleQuery :: GraphQLNamedType where
  "exampleQuery =
     \<lparr>t_name = ''Query'', t_description = Some ''Root Query type'', t_kind = ObjectKind,
      t_fields =
       [\<lparr>f_name = ''post'', f_description = Some ''Get certain post'',
        f_type = GraphQLNamed ''PostedPost'', f_args = [\<lparr>a_name = ''id'', a_description = None, a_type = GraphQLNonNull (GraphQLNamed ''ID'')\<rparr>]\<rparr>,
        \<lparr>f_name = ''posts'', f_description = Some ''Ge posts with limit and offset'',
        f_type = GraphQLNonNull (GraphQLList (GraphQLNonNull (GraphQLNamed ''PostedPost''))), f_args = [\<lparr>a_name = ''input'', a_description = None, a_type = GraphQLNamed ''PostsInput''\<rparr>]\<rparr>],
      t_astNode = Some \<lparr>n_kind = ObjectTypeDefinition, n_loc_start = 1620\<rparr>\<rparr>"

text \<open>
  A type object without fields and without definition node, as the built-in scalars are.
\<close>

definition leafType :: "string \<Rightarrow> GraphQLNamedType" where
  "leafType n =
     \<lparr>t_name = n, t_description = None, t_kind = ScalarKind, t_fields = [], t_astNode = None\<rparr>"

text \<open>
  The type objects that the references of the example point to. Every name other than the
  four types above is mapped to a type object without fields.
\<close>

definition exampleTypeMap :: TypeMap where
  "exampleTypeMap n =
     (if n = ''PostAuthor'' then examplePostAuthor
      else if n = ''PostedPost'' then examplePostedPost
      else if n = ''PostsInput'' then examplePostsInput
      else if n = ''Query'' then exampleQuery
      else leafType n)"

text \<open>A schema over these types that configures a query root only.\<close>

definition queryOnlySchema :: GraphQLSchema where
  "queryOnlySchema =
     \<lparr>s_queryType = Some exampleQuery, s_mutationType = None, s_subscriptionType = None,
      s_typeMap = exampleTypeMap\<rparr>"

text \<open>
  A type whose name is written in lower case, \<open>type user { id: ID! }\<close>: a name the
  schema language admits.
\<close>

definition exampleLowercaseUser :: GraphQLNamedType where
  "exampleLowercaseUser =
     \<lparr>t_name = ''user'', t_description = None, t_kind = ObjectKind,
      t_fields =
       [\<lparr>f_name = ''id'', f_description = None,
         f_type = GraphQLNonNull (GraphQLNamed ''ID''), f_args = []\<rparr>],
      t_astNode = Some \<lparr>n_kind = ObjectTypeDefinition, n_loc_start = 0\<rparr>\<rparr>"

section \<open>Properties of the resolver\<close>

lemma foldl_pushCustom_subset: "set ys \<subseteq> set xs \<Longrightarrow> foldl pushCustom xs ys = xs"
  by (induction ys) (simp_all add: pushCustom_def)

lemma foldl_pushCustom_id [simp]: "foldl pushCustom xs xs = xs"
  by (simp add: foldl_pushCustom_subset)

lemma typeFromAST_astFromType [simp]: "typeFromAST (astFromType t) = t"
  by (induction t) simp_all

lemma astFromType_typeFromAST [simp]: "astFromType (typeFromAST n) = n"
  by (induction n) simp_all

lemma getIOTypeDefinition_typeFromAST:
  "getIOTypeDefinition (typeFromAST node) acc n = getTypeNodeDefinition node acc n"
  by (induction node arbitrary: acc n) simp_all

lemmas scalar_defs =
  transpileGQLTypeName_def isGQLScalarType_def gqlScalarTypes_def gqlScalarTypesMap_def
  makeNullable_def pushCustom_def pushNew_def

lemmas char_defs =
  isAlnum_def isLineTerminator_def toUpperChar_def digits_def lowerLetters_def upperLetters_def

lemma resolver_non_null_list_of_non_null:
  "d_definition (getTypeNodeDefinition (NonNullType (ListType (NonNullType (NamedType X)))) acc n) =
     transpileGQLTypeName X @ ''[]''"
  by (simp add: Let_def)

text \<open>
  C1 (failing input). For the reference \<open>[String]\<close>, a list over the named type
  \<open>String\<close> without non-null wrappers, resolved with a fresh accumulator in a nullable
  context, both entry points render \<open>string | null[] | null\<close>: the array suffix is
  appended to the text \<open>string | null\<close> without parentheses, so it stands behind \<open>null\<close>
  alone. The rendering is not \<open>(string | null)[] | null\<close>, the nullable array of
  nullable strings.
\<close>

theorem resolver_list_of_nullable_rendering:
  "getTypeNodeDefinition (ListType (NamedType ''String'')) [] True =
     \<lparr>d_definition = ''string | null[] | null'', d_importTypes = []\<rparr>
   \<and> getIOTypeDefinition (GraphQLList (GraphQLNamed ''String'')) [] True =
       \<lparr>d_definition = ''string | null[] | null'', d_importTypes = []\<rparr>
   \<and> d_definition (getTypeNodeDefinition (ListType (NamedType ''String'')) [] True)
       \<noteq> ''(string | null)[] | null''"
  by (simp add: Let_def scalar_defs)

text \<open>
  C2. The syntax-tree entry point and the schema-object entry point give the same result
  record (the same rendered definition and the same import list) on structurally
  equivalent type references, for every import accumulator and nullable flag, and so for
  the fresh accumulator and the default flag. Every schema-object reference is the
  equivalent of a syntax-tree node.
\<close>

theorem resolver_entry_points_agree:
  "getIOTypeDefinition (typeFromAST node) importTypes nullable =
     getTypeNodeDefinition node importTypes nullable
   \<and> getIOTypeDefinition (typeFromAST node) [] True = getTypeNodeDefinition node [] True
   \<and> typeFromAST (astFromType t) = t"
  by (simp add: getIOTypeDefinition_typeFromAST)

section \<open>Properties of the sorter\<close>

lemma categoryBefore_weights: "categoryBefore j k \<longleftrightarrow> weights j < weights k"
  by (cases j; cases k) (simp_all add: categoryBefore_def categoryOrder_def)

lemma weights_inject: "weights j = weights k \<longleftrightarrow> j = k"
  by (cases j; cases k) simp_all

text \<open>
  C8. A type without definition node compares below every type with one. For two types
  with definition nodes, in every mode but \<open>as-is\<close> the comparator is negative exactly when
  the first category comes before the second in the order scalar, enum, interface, input
  object, union, object, and zero exactly for equal categories; in mode \<open>as-is\<close> it is
  negative exactly when the first definition starts before the second.
\<close>

theorem sorter_orders_by_category_or_position:
  "(t_astNode a = None \<and> t_astNode b \<noteq> None \<longrightarrow> getSorter display a b < 0)
   \<and> (t_astNode a \<noteq> None \<and> t_astNode b = None \<longrightarrow> getSorter display a b > 0)
   \<and> (t_astNode a = None \<and> t_astNode b = None \<longrightarrow> getSorter display a b = 0)
   \<and> (t_astNode a = Some na \<and> t_astNode b = Some nb \<and> display \<noteq> ''as-is'' \<longrightarrow>
        (getSorter display a b < 0 \<longleftrightarrow> categoryBefore (n_kind na) (n_kind nb))
        \<and> (getSorter display a b > 0 \<longleftrightarrow> categoryBefore (n_kind nb) (n_kind na))
        \<and> (getSorter display a b = 0 \<longleftrightarrow> n_kind na = n_kind nb))
   \<and> (t_astNode a = Some na \<and> t_astNode b = Some nb \<and> display = ''as-is'' \<longrightarrow>
        (getSorter display a b < 0 \<longleftrightarrow> n_loc_start na < n_loc_start nb)
        \<and> (getSorter display a b > 0 \<longleftrightarrow> n_loc_start nb < n_loc_start na)
        \<and> (getSorter display a b = 0 \<longleftrightarrow> n_loc_start na = n_loc_start nb))
   \<and> categoryBefore ScalarTypeDefinition EnumTypeDefinition
   \<and> categoryBefore EnumTypeDefinition InterfaceTypeDefinition
   \<and> categoryBefore InterfaceTypeDefinition InputObjectTypeDefinition
   \<and> categoryBefore InputObjectTypeDefinition UnionTypeDefinition
   \<and> categoryBefore UnionTypeDefinition ObjectTypeDefinition"
  by (auto simp: getSorter_def categoryBefore_weights weights_inject)

theorem sorter_orders_by_category_or_position_witness:
  "t_astNode (leafType ''Int'') = None
   \<and> getSorter ''default'' (leafType ''Int'') examplePostsInput < 0
   \<and> getSorter ''default'' examplePostsInput (leafType ''Int'') > 0
   \<and> getSorter ''default'' (leafType ''Int'') (leafType ''ID'') = 0
   \<and> getSorter ''default'' examplePostsInput examplePostAuthor < 0
   \<and> getSorter ''as-is'' examplePostAuthor examplePostsInput < 0"
proof -
  have n: "t_astNode (leafType ''Int'') = None" "t_astNode (leafType ''ID'') = None"
    by (simp_all add: leafType_def)
  have i: "t_astNode examplePostsInput =
             Some \<lparr>n_kind = InputObjectTypeDefinition, n_loc_start = 1433\<rparr>"
    by (simp add: examplePostsInput_def)
  have a: "t_astNode examplePostAuthor = Some \<lparr>n_kind = ObjectTypeDefinition, n_loc_start = 0\<rparr>"
    by (simp add: examplePostAuthor_def)
  have d: "''default'' \<noteq> ''as-is''"
    by simp
  have c: "categoryBefore InputObjectTypeDefinition ObjectTypeDefinition"
    by (simp add: categoryBefore_def categoryOrder_def)
  show ?thesis
    using n i a d c
      sorter_orders_by_category_or_position
        [of "leafType ''Int''" examplePostsInput "''default''"]
      sorter_orders_by_category_or_position
        [of examplePostsInput "leafType ''Int''" "''default''"]
      sorter_orders_by_category_or_position
        [of "leafType ''Int''" "leafType ''ID''" "''default''"]
      sorter_orders_by_category_or_position
        [of examplePostsInput examplePostAuthor "''default''"
            "\<lparr>n_kind = InputObjectTypeDefinition, n_loc_start = 1433\<rparr>"
            "\<lparr>n_kind = ObjectTypeDefinition, n_loc_start = 0\<rparr>"]
      sorter_orders_by_category_or_position
        [of examplePostAuthor examplePostsInput "''as-is''"
            "\<lparr>n_kind = ObjectTypeDefinition, n_loc_start = 0\<rparr>"
            "\<lparr>n_kind = InputObjectTypeDefinition, n_loc_start = 1433\<rparr>"]
    by simp
qed

section \<open>Properties of the naming functions\<close>

lemma cleared_keeps_alnum: "\<exists>c\<in>set s. isAlnum c \<Longrightarrow> cleared s \<noteq> []"
  by (induction s rule: cleared.induct) (auto split: if_splits)

lemma cleared_all_alnum: "\<forall>c\<in>set s. isAlnum c \<Longrightarrow> cleared s = s"
  by (induction s rule: cleared.induct) auto

lemma toCamelCase_Inl: "toCamelCase s = Inl e \<longleftrightarrow> e = TypeError \<and> cleared s = []"
  by (auto simp: toCamelCase_def split: list.splits)

lemma toCamelCase_Inr:
  "toCamelCase s = Inr r \<longleftrightarrow>
     cleared s \<noteq> [] \<and> r = toUpperChar (hd (cleared s)) # tl (cleared s)"
  by (auto simp: toCamelCase_def split: list.splits)

lemma toCamelCase_query: "toCamelCase ''query'' = Inr ''Query''"
  by (simp add: toCamelCase_def char_defs)

lemma toCamelCase_mutation: "toCamelCase ''mutation'' = Inr ''Mutation''"
  by (simp add: toCamelCase_def char_defs)

lemma toCamelCase_subscription: "toCamelCase ''subscription'' = Inr ''Subscription''"
  by (simp add: toCamelCase_def char_defs)

lemma lineTerminator_not_alnum: "isLineTerminator c \<Longrightarrow> \<not> isAlnum c"
  by (auto simp: char_defs)

lemma cleared_empty_iff: "cleared s = [] \<longleftrightarrow> clearsToNothing s"
proof (induction s rule: cleared.induct)
  case 1
  show ?case by (simp add: clearsToNothing_def)
next
  case (2 c)
  show ?case by (simp add: clearsToNothing_def)
next
  case (3 c d rest)
  show ?case
  proof (cases "isAlnum c")
    case True
    then show ?thesis by (simp add: clearsToNothing_def)
  next
    case False
    show ?thesis
    proof (cases "isLineTerminator d")
      case True
      with False 3 lineTerminator_not_alnum [of d] show ?thesis
        by (simp add: clearsToNothing_def)
    next
      case d: False
      with False show ?thesis
        by (simp add: clearsToNothing_def)
    qed
  qed
qed

lemma toUpperChar_idem: "toUpperChar (toUpperChar c) = toUpperChar c"
  by (simp add: toUpperChar_def lowerLetters_def upperLetters_def)

text \<open>
  C10 (as the code has it). toCamelCase fails, with the TypeError of reading a character of
  the empty string, exactly on the empty string and on a character that is no letter or
  digit followed by line terminators only; on every other input it returns. So it returns
  for every input that contains a letter or a digit, and for a non-empty input of letters
  and digits only it returns the input with its first character in upper case; and it
  returns for an input that begins with two characters of which the first is no letter or
  digit and the second no line terminator, whatever follows: for \<open>__\<close> it returns
  \<open>_\<close>. getCompiledOperationName applies toCamelCase to the operation kind only: it
  returns, for every name, exactly when toCamelCase returns for the kind, and then gives
  the name unchanged followed by the converted kind. getCompiledOperationNamespaceName
  returns exactly when toCamelCase returns for both the name and the kind.
\<close>

theorem toCamelCase_fails_iff_nothing_left:
  "(toCamelCase s = Inl TypeError \<longleftrightarrow> clearsToNothing s)
   \<and> ((\<exists>r. toCamelCase s = Inr r) \<longleftrightarrow> \<not> clearsToNothing s)
   \<and> ((\<exists>c\<in>set s. isAlnum c) \<longrightarrow> \<not> clearsToNothing s \<and> (\<exists>r. toCamelCase s = Inr r))
   \<and> (s \<noteq> [] \<and> (\<forall>c\<in>set s. isAlnum c) \<longrightarrow> toCamelCase s = Inr (toUpperChar (hd s) # tl s))
   \<and> (\<not> isAlnum c \<and> \<not> isLineTerminator d \<longrightarrow>
        toCamelCase (c # d # rest) = Inr (toUpperChar d # cleared rest))
   \<and> toCamelCase ''__'' = Inr ''_''
   \<and> ((\<exists>r. getCompiledOperationName name operation = Inr r) \<longleftrightarrow> \<not> clearsToNothing operation)
   \<and> (\<forall>k. toCamelCase operation = Inr k \<longrightarrow>
         getCompiledOperationName name operation = Inr (name @ k))
   \<and> ((\<exists>r. getCompiledOperationNamespaceName name operation = Inr r) \<longleftrightarrow>
        \<not> clearsToNothing name \<and> \<not> clearsToNothing operation)"
proof -
  have 1: "toCamelCase s = Inl TypeError \<longleftrightarrow> clearsToNothing s"
    by (simp add: toCamelCase_Inl cleared_empty_iff)
  have r: "(\<exists>r. toCamelCase x = Inr r) \<longleftrightarrow> \<not> clearsToNothing x" for x
    by (simp add: toCamelCase_Inr cleared_empty_iff)
  have 3: "(\<exists>c\<in>set s. isAlnum c) \<longrightarrow> \<not> clearsToNothing s \<and> (\<exists>r. toCamelCase s = Inr r)"
    using cleared_keeps_alnum [of s] by (simp add: toCamelCase_Inr cleared_empty_iff)
  have 4: "s \<noteq> [] \<and> (\<forall>c\<in>set s. isAlnum c) \<longrightarrow> toCamelCase s = Inr (toUpperChar (hd s) # tl s)"
    using cleared_all_alnum [of s] by (auto simp: toCamelCase_Inr)
  have 5: "\<not> isAlnum c \<and> \<not> isLineTerminator d \<longrightarrow>
             toCamelCase (c # d # rest) = Inr (toUpperChar d # cleared rest)"
    by (simp add: toCamelCase_def toUpperChar_idem)
  have 6: "toCamelCase ''__'' = Inr ''_''"
    by (simp add: toCamelCase_def char_defs)
  have 7: "(\<exists>r. getCompiledOperationName name operation = Inr r) \<longleftrightarrow>
             \<not> clearsToNothing operation"
    using r [of operation] by (auto simp: getCompiledOperationName_def split: sum.splits)
  have 8: "\<forall>k. toCamelCase operation = Inr k \<longrightarrow>
             getCompiledOperationName name operation = Inr (name @ k)"
    by (simp add: getCompiledOperationName_def)
  have 9: "(\<exists>r. getCompiledOperationNamespaceName name operation = Inr r) \<longleftrightarrow>
             \<not> clearsToNothing name \<and> \<not> clearsToNothing operation"
    using r [of name] r [of operation]
    by (auto simp: getCompiledOperationNamespaceName_def split: sum.splits)
  from 1 r [of s] 3 4 5 6 7 8 9 show ?thesis
    by blast
qed

theorem toCamelCase_fails_iff_nothing_left_witness:
  "isAlnum CHR ''q'' \<and> CHR ''q'' \<in> set ''query''
   \<and> toCamelCase ''query'' = Inr ''Query''
   \<and> \<not> isAlnum CHR ''_'' \<and> \<not> isLineTerminator CHR ''_''
   \<and> toCamelCase ''_'' = Inl TypeError
   \<and> toCamelCase [CHR ''_'', CHR 0x0A] = Inl TypeError
   \<and> toCamelCase ''__'' = Inr ''_''
   \<and> toCamelCase ''_a'' = Inr ''A''
   \<and> getCompiledOperationName ''_'' ''query'' = Inr ''_Query''
   \<and> (\<exists>r. getCompiledOperationNamespaceName ''__'' ''query'' = Inr r)"
proof -
  have a: "\<forall>c\<in>set ''query''. isAlnum c"
    by (simp add: char_defs)
  have u: "\<not> isAlnum CHR ''_''" "\<not> isLineTerminator CHR ''_''" "\<not> isLineTerminator CHR ''a''"
    by (simp_all add: char_defs)
  have q: "isAlnum CHR ''q''"
    by (simp add: char_defs)
  have h: "toUpperChar (hd ''query'') # tl ''query'' = ''Query''"
    by (simp add: char_defs)
  have n1: "clearsToNothing ''_''"
    by (simp add: clearsToNothing_def char_defs)
  have n2: "clearsToNothing [CHR ''_'', CHR 0x0A]"
    by (simp add: clearsToNothing_def char_defs)
  have n3: "\<not> clearsToNothing ''__''" "\<not> clearsToNothing ''query''"
    by (simp_all add: clearsToNothing_def char_defs)
  note t = toCamelCase_fails_iff_nothing_left [of "''query''" _ _ _ "''_''" "''query''"]
  from t a have r: "toCamelCase ''query'' = Inr ''Query''"
    using h by simp
  from t r have o: "getCompiledOperationName ''_'' ''query'' = Inr ''_Query''"
    by simp
  from toCamelCase_fails_iff_nothing_left [of "''_''"] n1
  have e1: "toCamelCase ''_'' = Inl TypeError"
    by simp
  from toCamelCase_fails_iff_nothing_left [of "[CHR ''_'', CHR 0x0A]"] n2
  have e2: "toCamelCase [CHR ''_'', CHR 0x0A] = Inl TypeError"
    by simp
  from toCamelCase_fails_iff_nothing_left [of _ "CHR ''_''" "CHR ''_''" "[]"] u
  have p1: "toCamelCase ''__'' = Inr ''_''"
    by (simp add: char_defs)
  from toCamelCase_fails_iff_nothing_left [of _ "CHR ''_''" "CHR ''a''" "[]"] u
  have p2: "toCamelCase ''_a'' = Inr ''A''"
    by (simp add: char_defs)
  from toCamelCase_fails_iff_nothing_left [of _ _ _ _ "''__''" "''query''"] n3
  have p3: "\<exists>r. getCompiledOperationNamespaceName ''__'' ''query'' = Inr r"
    by simp
  from q u r e1 e2 p1 p2 o p3 show ?thesis
    by simp
qed

text \<open>
  C10 as stated fails: \<open>__\<close> has no letter and no digit, and toCamelCase returns \<open>_\<close> for
  it; getCompiledOperationName returns for the name \<open>_\<close>, on which toCamelCase fails.
\<close>

theorem toCamelCase_returns_without_alphanumeric:
  "\<not> isAlnum CHR ''_'' \<and> toCamelCase ''__'' = Inr ''_''
   \<and> toCamelCase ''_'' = Inl TypeError
   \<and> getCompiledOperationName ''_'' ''query'' = Inr ''_Query''"
  by (simp add: toCamelCase_def getCompiledOperationName_def char_defs)

section \<open>Properties of the field-path navigator\<close>

lemma foldl_hop_None: "foldl (hop tm) None xs = None"
  by (induction xs) (simp_all add: hop_def)

lemma getFirstNonWrappingType_namedTypeUnder:
  "getFirstNonWrappingType tm t = tm (namedTypeUnder t)"
  by (induction t) simp_all

lemma map_of_fields:
  "map_of (map (\<lambda>f. (f_name f, c f)) fs) k = map_option c (find (\<lambda>f. f_name f = k) fs)"
  by (induction fs) simp_all

lemma map_of_toConfigFields:
  "map_of (toConfigFields root) k = map_option toFieldConfig (lookupField (t_fields root) k)"
  by (simp add: toConfigFields_def lookupField_def map_of_fields)

lemma fieldType_toFieldConfig: "fieldType (FieldConfig (toFieldConfig g)) = f_type g"
  by (simp add: toFieldConfig_def)

lemma getIn_loop_step:
  assumes "fieldType field = f_type f"
  shows "getIn_loop tm path field p rest =
     (case hop tm (Some f) p of
        None \<Rightarrow> Inl (PathNotFound path)
      | Some g \<Rightarrow>
          (case rest of
             [] \<Rightarrow> Inr (FieldObject g)
           | q # r \<Rightarrow> getIn_loop tm path (FieldObject g) q r))"
  using assms
  by (simp add: hop_def canDescendInto_def getFirstNonWrappingType_namedTypeUnder Let_def
        split: option.splits)

lemma getIn_loop_hop:
  assumes "fieldType field = f_type f"
  shows "getIn_loop tm path field p rest =
     (case foldl (hop tm) (Some f) (p # rest) of
        None \<Rightarrow> Inl (PathNotFound path)
      | Some g \<Rightarrow> Inr (FieldObject g))"
  using assms
proof (induction rest arbitrary: field f p)
  case Nil
  show ?case
    by (simp only: getIn_loop_step [OF Nil, of tm path p "[]"] foldl.simps list.case)
next
  case (Cons q rest)
  have unfold: "foldl (hop tm) (Some f) (p # q # rest) =
                  foldl (hop tm) (hop tm (Some f) p) (q # rest)"
    by simp
  show ?case
  proof (cases "hop tm (Some f) p")
    case None
    then show ?thesis
      by (simp only: getIn_loop_step [OF Cons.prems, of tm path p "q # rest"] unfold
            foldl_hop_None option.case)
  next
    case (Some g)
    have "fieldType (FieldObject g) = f_type g"
      by simp
    from Some Cons.IH [OF this, of q] show ?thesis
      by (simp only: getIn_loop_step [OF Cons.prems, of tm path p "q # rest"] unfold
            option.case list.case)
  qed
qed

lemma js_split_nonempty: "js_split sep s \<noteq> []"
  by (induction s) (auto split: list.splits)

lemma getIn_literalDescent:
  "getIn tm (Some root) path =
     (case literalDescent tm root (js_split CHR ''.'' path) of
        None \<Rightarrow> Inl (PathNotFound path)
      | Some g \<Rightarrow> Inr (resultOf (js_split CHR ''.'' path) g))"
proof (cases "js_split CHR ''.'' path")
  case Nil
  then show ?thesis using js_split_nonempty [of "CHR ''.''" path] by simp
next
  case (Cons s ss)
  show ?thesis
  proof (cases "lookupField (t_fields root) s")
    case None
    with Cons show ?thesis
      by (simp add: getIn_def literalDescent_def foldl_hop_None map_of_toConfigFields)
  next
    case (Some f)
    show ?thesis
    proof (cases ss)
      case Nil
      with Cons Some show ?thesis
        by (simp add: getIn_def literalDescent_def map_of_toConfigFields resultOf_def)
    next
      case (Cons q r)
      have "getIn_loop tm path (FieldConfig (toFieldConfig f)) q r =
              (case foldl (hop tm) (Some f) (q # r) of
                 None \<Rightarrow> Inl (PathNotFound path)
               | Some g \<Rightarrow> Inr (FieldObject g))"
        by (rule getIn_loop_hop) (rule fieldType_toFieldConfig)
      with Cons \<open>js_split CHR ''.'' path = s # ss\<close> Some show ?thesis
        by (simp add: getIn_def literalDescent_def map_of_toConfigFields resultOf_def
              del: getIn_loop.simps split: option.splits)
    qed
  qed
qed

lemma literalDescent_prefix:
  assumes "literalDescent tm root (take n segs) = None" and "0 < n"
  shows "literalDescent tm root segs = None"
proof (cases segs)
  case Nil
  then show ?thesis by (simp add: literalDescent_def)
next
  case (Cons s ss)
  show ?thesis
  proof (cases n)
    case 0
    with assms show ?thesis by simp
  next
    case (Suc m)
    with Cons assms have "foldl (hop tm) (lookupField (t_fields root) s) (take m ss) = None"
      by (simp add: literalDescent_def)
    then have "foldl (hop tm) (lookupField (t_fields root) s) (take m ss @ drop m ss) = None"
      by (simp only: foldl_append foldl_hop_None)
    with Cons show ?thesis by (simp add: literalDescent_def)
  qed
qed

lemma lookupField_Some: "lookupField fs key = Some f \<Longrightarrow> f \<in> set fs \<and> f_name f = key"
  by (auto simp: lookupField_def find_Some_iff)

lemma hop_Some:
  assumes "hop tm cur seg = Some f"
  shows "f_name f = seg
         \<and> (\<exists>h::GraphQLField. canDescendInto (tm (namedTypeUnder (f_type h)))
               \<and> f \<in> set (t_fields (tm (namedTypeUnder (f_type h)))))"
proof (cases cur)
  case None
  with assms show ?thesis by (simp add: hop_def)
next
  case (Some x)
  with assms have d: "canDescendInto (tm (namedTypeUnder (f_type x)))"
    and "lookupField (t_fields (tm (namedTypeUnder (f_type x)))) seg = Some f"
    by (simp_all add: hop_def split: if_splits)
  then have "f \<in> set (t_fields (tm (namedTypeUnder (f_type x)))) \<and> f_name f = seg"
    using lookupField_Some by blast
  with d show ?thesis by blast
qed

lemma literalDescent_Some:
  assumes "literalDescent tm root segs = Some f"
  shows "f_name f = last segs \<and>
         (f \<in> set (t_fields root)
          \<or> (\<exists>h::GraphQLField. canDescendInto (tm (namedTypeUnder (f_type h)))
                \<and> f \<in> set (t_fields (tm (namedTypeUnder (f_type h))))))"
proof (cases segs)
  case Nil
  with assms show ?thesis by (simp add: literalDescent_def)
next
  case (Cons s ss)
  show ?thesis
  proof (cases ss rule: rev_cases)
    case Nil
    with Cons assms show ?thesis
      by (auto simp: literalDescent_def dest: lookupField_Some)
  next
    case (snoc ys y)
    with Cons assms have "hop tm (foldl (hop tm) (lookupField (t_fields root) s) ys) y = Some f"
      by (simp add: literalDescent_def)
    from hop_Some [OF this] snoc Cons show ?thesis
      by simp
  qed
qed

lemma fieldType_resultOf: "fieldType (resultOf segs g) = f_type g"
  by (simp add: resultOf_def toFieldConfig_def)

text \<open>
  C4. With \<open>segs\<close> the segments of the dotted path: getIn on a root type fails with
  PathNotFound exactly when literal descent cannot find some non-empty prefix of the
  segments, where literal descent looks a later segment up in the type named under the
  list and non-null wrappers of the current field's declared type and only in an object or
  interface type; every failure is PathNotFound and carries the path that was asked for.
  getIn returns exactly when literal descent finds a field for the whole path, and it
  returns that field (its configuration, for a path of one segment): the type of what is
  returned is the declared type of that field with all its wrappers, and the field is the
  one declared under the last segment in the root type or in a type that can be
  descended into.
\<close>

theorem getIn_fails_iff_prefix_not_found:
  assumes "segs = js_split CHR ''.'' path"
  shows "(getIn tm (Some root) path = Inl (PathNotFound path) \<longleftrightarrow>
           (\<exists>n\<in>{1..length segs}. literalDescent tm root (take n segs) = None))
         \<and> (\<forall>e. getIn tm (Some root) path = Inl e \<longrightarrow> e = PathNotFound path)
         \<and> (getIn tm (Some root) path = Inr r \<longleftrightarrow>
              (\<exists>g. literalDescent tm root segs = Some g \<and> r = resultOf segs g))
         \<and> (\<forall>g. literalDescent tm root segs = Some g \<longrightarrow>
              fieldType (resultOf segs g) = f_type g
              \<and> f_name g = last segs
              \<and> (g \<in> set (t_fields root)
                  \<or> (\<exists>h::GraphQLField. canDescendInto (tm (namedTypeUnder (f_type h)))
                        \<and> g \<in> set (t_fields (tm (namedTypeUnder (f_type h)))))))"
proof -
  have ne: "segs \<noteq> []"
    using assms js_split_nonempty by simp
  have a: "(\<exists>n\<in>{1..length segs}. literalDescent tm root (take n segs) = None) \<longleftrightarrow>
           literalDescent tm root segs = None"
  proof
    assume "\<exists>n\<in>{1..length segs}. literalDescent tm root (take n segs) = None"
    then show "literalDescent tm root segs = None"
      using literalDescent_prefix [of tm root _ segs] by auto
  next
    assume "literalDescent tm root segs = None"
    moreover have "length segs \<in> {1..length segs}"
      using ne by (cases segs) simp_all
    ultimately show "\<exists>n\<in>{1..length segs}. literalDescent tm root (take n segs) = None"
      by (metis take_all order_refl)
  qed
  have b: "getIn tm (Some root) path = Inr r \<longleftrightarrow>
             (\<exists>g. literalDescent tm root segs = Some g \<and> r = resultOf segs g)"
    by (auto simp add: getIn_literalDescent assms split: option.splits)
  have c: "getIn tm (Some root) path = Inl (PathNotFound path) \<longleftrightarrow>
             literalDescent tm root segs = None"
    by (simp add: getIn_literalDescent assms split: option.splits)
  have d: "\<forall>e. getIn tm (Some root) path = Inl e \<longrightarrow> e = PathNotFound path"
    by (auto simp add: getIn_literalDescent split: option.splits)
  have e: "\<forall>g. literalDescent tm root segs = Some g \<longrightarrow>
              fieldType (resultOf segs g) = f_type g
              \<and> f_name g = last segs
              \<and> (g \<in> set (t_fields root)
                  \<or> (\<exists>h::GraphQLField. canDescendInto (tm (namedTypeUnder (f_type h)))
                        \<and> g \<in> set (t_fields (tm (namedTypeUnder (f_type h))))))"
    using literalDescent_Some [of tm root segs] fieldType_resultOf [of segs] by blast
  from a b c d e show ?thesis
    by simp
qed

theorem getIn_fails_iff_prefix_not_found_witness:
  "js_split CHR ''.'' ''posts.id.name'' = [''posts'', ''id'', ''name'']
   \<and> 3 \<in> {1..length [''posts'', ''id'', ''name'']}
   \<and> literalDescent exampleTypeMap exampleQuery (take 3 [''posts'', ''id'', ''name'']) = None
   \<and> getIn exampleTypeMap (Some exampleQuery) ''posts.id.name'' =
       Inl (PathNotFound ''posts.id.name'')
   \<and> getIn exampleTypeMap (Some exampleQuery) ''posts'' =
       Inr (FieldConfig
             \<lparr>fc_description = Some ''Ge posts with limit and offset'',
              fc_type = GraphQLNonNull (GraphQLList (GraphQLNonNull (GraphQLNamed ''PostedPost''))),
              fc_args = [(''input'', \<lparr>ac_description = None,
                                       ac_type = GraphQLNamed ''PostsInput''\<rparr>)]\<rparr>)
   \<and> fieldType (resultOf [''posts'']
             \<lparr>f_name = ''posts'', f_description = Some ''Ge posts with limit and offset'',
              f_type = GraphQLNonNull (GraphQLList (GraphQLNonNull (GraphQLNamed ''PostedPost''))),
              f_args = [\<lparr>a_name = ''input'', a_description = None,
                         a_type = GraphQLNamed ''PostsInput''\<rparr>]\<rparr>) =
       GraphQLNonNull (GraphQLList (GraphQLNonNull (GraphQLNamed ''PostedPost'')))
   \<and> getIn exampleTypeMap (Some exampleQuery) ''posts.author'' =
       Inr (FieldObject
             \<lparr>f_name = ''author'', f_description = Some ''Post author'',
              f_type = GraphQLNonNull (GraphQLNamed ''PostAuthor''), f_args = []\<rparr>)"
proof -
  have s3: "[''posts'', ''id'', ''name''] = js_split CHR ''.'' ''posts.id.name''"
    by simp
  have s2: "[''posts'', ''author''] = js_split CHR ''.'' ''posts.author''"
    by simp
  have s1: "[''posts''] = js_split CHR ''.'' ''posts''"
    by simp
  have m: "(3::nat) \<in> {1..length [''posts'', ''id'', ''name'']}"
    by simp
  have n: "literalDescent exampleTypeMap exampleQuery (take 3 [''posts'', ''id'', ''name'']) = None"
    by (simp add: literalDescent_def hop_def canDescendInto_def lookupField_def
          exampleTypeMap_def exampleQuery_def examplePostedPost_def leafType_def)
  have p: "literalDescent exampleTypeMap exampleQuery [''posts''] =
             Some \<lparr>f_name = ''posts'', f_description = Some ''Ge posts with limit and offset'',
              f_type = GraphQLNonNull (GraphQLList (GraphQLNonNull (GraphQLNamed ''PostedPost''))),
              f_args = [\<lparr>a_name = ''input'', a_description = None,
                         a_type = GraphQLNamed ''PostsInput''\<rparr>]\<rparr>"
    by (simp add: literalDescent_def lookupField_def exampleQuery_def)
  have q: "literalDescent exampleTypeMap exampleQuery [''posts'', ''author''] =
             Some \<lparr>f_name = ''author'', f_description = Some ''Post author'',
              f_type = GraphQLNonNull (GraphQLNamed ''PostAuthor''), f_args = []\<rparr>"
    by (simp add: literalDescent_def hop_def canDescendInto_def lookupField_def
          exampleTypeMap_def exampleQuery_def examplePostedPost_def)
  from m n getIn_fails_iff_prefix_not_found [OF s3, of exampleTypeMap exampleQuery]
  have f: "getIn exampleTypeMap (Some exampleQuery) ''posts.id.name'' =
             Inl (PathNotFound ''posts.id.name'')"
    by blast
  from p getIn_fails_iff_prefix_not_found [OF s1, of exampleTypeMap exampleQuery]
  have g: "getIn exampleTypeMap (Some exampleQuery) ''posts'' =
             Inr (resultOf [''posts'']
                   \<lparr>f_name = ''posts'', f_description = Some ''Ge posts with limit and offset'',
              f_type = GraphQLNonNull (GraphQLList (GraphQLNonNull (GraphQLNamed ''PostedPost''))),
              f_args = [\<lparr>a_name = ''input'', a_description = None,
                         a_type = GraphQLNamed ''PostsInput''\<rparr>]\<rparr>)"
    and t: "fieldType (resultOf [''posts'']
             \<lparr>f_name = ''posts'', f_description = Some ''Ge posts with limit and offset'',
              f_type = GraphQLNonNull (GraphQLList (GraphQLNonNull (GraphQLNamed ''PostedPost''))),
              f_args = [\<lparr>a_name = ''input'', a_description = None,
                         a_type = GraphQLNamed ''PostsInput''\<rparr>]\<rparr>) =
            GraphQLNonNull (GraphQLList (GraphQLNonNull (GraphQLNamed ''PostedPost'')))"
    by simp_all
  from q getIn_fails_iff_prefix_not_found [OF s2, of exampleTypeMap exampleQuery]
  have h: "getIn exampleTypeMap (Some exampleQuery) ''posts.author'' =
             Inr (resultOf [''posts'', ''author'']
                   \<lparr>f_name = ''author'', f_description = Some ''Post author'',
              f_type = GraphQLNonNull (GraphQLNamed ''PostAuthor''), f_args = []\<rparr>)"
    by simp
  from s3 m n f g t h show ?thesis
    by (simp add: resultOf_def toFieldConfig_def toArgumentConfig_def)
qed

section \<open>Properties of the selection projector\<close>

lemma foldl_objectField_filter:
  "foldl (objectFieldOfSelection nsp) acc sels =
     foldl (objectFieldOfSelection nsp) acc (filter isField sels)"
proof (induction sels arbitrary: acc)
  case Nil
  show ?case by simp
next
  case (Cons s sels)
  then show ?case by (cases s) simp_all
qed

lemma foldl_objectField_length:
  "length (foldl (objectFieldOfSelection nsp) acc sels) = length acc + length (filter isField sels)"
proof (induction sels arbitrary: acc)
  case Nil
  show ?case by simp
next
  case (Cons s sels)
  then show ?case by (cases s) simp_all
qed

lemma namespaceFields_filter:
  "selectionSetToNamespaceFields tm sels root path =
     selectionSetToNamespaceFields tm (filter isField sels) root path"
proof (induction sels)
  case Nil
  show ?case by simp
next
  case (Cons s sels)
  then show ?case by (cases s) (simp_all cong: sum.case_cong)
qed

lemma namespaceFields_length:
  "selectionSetToNamespaceFields tm sels root path = Inr fs \<Longrightarrow>
     length fs = length (filter isField sels)"
proof (induction sels arbitrary: fs)
  case Nil
  then show ?case by simp
next
  case (Cons s sels)
  then show ?case by (cases s) (auto split: sum.splits)
qed

text \<open>
  C5 (as the code has it). A selection that is not a field is skipped without any error:
  both projections of a selection set equal the projections of the selection set with its
  non-field selections removed (the same entries, the same failure if a field fails), and
  the projected list has one entry per field selection. In particular a fragment spread
  anywhere in the selection set changes nothing.
\<close>

theorem non_field_selections_skipped:
  "selectionSetToObjectFields sels nsp = selectionSetToObjectFields (filter isField sels) nsp
   \<and> length (selectionSetToObjectFields sels nsp) = length (filter isField sels)
   \<and> selectionSetToNamespaceFields tm sels root path =
       selectionSetToNamespaceFields tm (filter isField sels) root path
   \<and> (\<forall>fs. selectionSetToNamespaceFields tm sels root path = Inr fs \<longrightarrow>
         length fs = length (filter isField sels))
   \<and> selectionSetToObjectFields (xs @ FragmentSpread n # ys) nsp =
       selectionSetToObjectFields (xs @ ys) nsp
   \<and> selectionSetToNamespaceFields tm (xs @ FragmentSpread n # ys) root path =
       selectionSetToNamespaceFields tm (xs @ ys) root path"
proof -
  have a: "selectionSetToObjectFields (xs @ FragmentSpread n # ys) nsp =
           selectionSetToObjectFields (xs @ ys) nsp"
    by (simp add: selectionSetToObjectFields_def)
  have b: "selectionSetToNamespaceFields tm (xs @ FragmentSpread n # ys) root path =
           selectionSetToNamespaceFields tm (xs @ ys) root path"
    using namespaceFields_filter [of tm "xs @ FragmentSpread n # ys" root path]
      namespaceFields_filter [of tm "xs @ ys" root path]
    by simp
  show ?thesis
    using a b foldl_objectField_filter [of nsp "[]" sels] foldl_objectField_length [of nsp "[]" sels]
      namespaceFields_filter [of tm sels root path] namespaceFields_length [of tm sels root path]
    by (simp add: selectionSetToObjectFields_def)
qed

theorem non_field_selections_skipped_witness:
  "selectionSetToNamespaceFields exampleTypeMap [FragmentSpread ''F'', Field ''post'' None]
     (Some exampleQuery) [] =
     Inr [LeafField ''post''
            \<lparr>d_definition = ''PostedPost | null'', d_importTypes = [''PostedPost'']\<rparr>]
   \<and> length [LeafField ''post''
                \<lparr>d_definition = ''PostedPost | null'', d_importTypes = [''PostedPost'']\<rparr>] =
       length (filter isField [FragmentSpread ''F'', Field ''post'' None])"
proof -
  have v: "selectionSetToNamespaceFields exampleTypeMap [FragmentSpread ''F'', Field ''post'' None]
             (Some exampleQuery) [] =
           Inr [LeafField ''post''
                  \<lparr>d_definition = ''PostedPost | null'', d_importTypes = [''PostedPost'']\<rparr>]"
    by (simp add: getIn_def toConfigFields_def toFieldConfig_def toArgumentConfig_def
          exampleQuery_def scalar_defs Let_def)
  with non_field_selections_skipped
         [of "[FragmentSpread ''F'', Field ''post'' None]" _ exampleTypeMap "Some exampleQuery" "[]"]
  show ?thesis
    by blast
qed

text \<open>
  C5 as stated fails: a selection set that consists of a fragment spread is projected to
  the empty list, with no error, by both projections.
\<close>

theorem fragment_spread_dropped_without_error:
  "selectionSetToObjectFields [FragmentSpread ''F''] ''N'' = []
   \<and> selectionSetToNamespaceFields exampleTypeMap [FragmentSpread ''F''] (Some exampleQuery) []
       = Inr []"
  by (simp add: selectionSetToObjectFields_def)

section \<open>Properties of the operation assembler\<close>

lemma getIn_None: "getIn tm None path = Inl TypeError"
  using js_split_nonempty [of "CHR ''.''" path]
  by (cases "js_split CHR ''.'' path") (simp_all add: getIn_def)

lemma fieldNode_None: "fieldNodeToNamespaceField tm n sel None path = Inl TypeError"
  by (cases sel) (simp_all add: getIn_None Let_def)

lemma namespaceFields_None:
  "selectionSetToNamespaceFields tm sels None path =
     (if \<exists>s\<in>set sels. isField s then Inl TypeError else Inr [])"
proof (induction sels)
  case Nil
  show ?case by simp
next
  case (Cons s sels)
  then show ?case by (cases s) (simp_all add: fieldNode_None)
qed


lemma operation_kind_converts:
  "operation \<in> {''query'', ''mutation'', ''subscription''} \<Longrightarrow> cleared operation \<noteq> []"
  using toCamelCase_query toCamelCase_mutation toCamelCase_subscription
  by (auto simp: toCamelCase_Inr)

lemma parseOperation_without_root_fails:
  assumes k: "od_operation node \<in> {''query'', ''mutation'', ''subscription''}"
    and r: "getOperationRootNode schema (od_operation node) = None"
    and f: "od_name node = None \<or> cleared (the (od_name node)) = []
            \<or> (\<exists>s\<in>set (od_selectionSet node). isField s)"
  shows "parseOperationDefinitionNode node schema str = Inl TypeError"
proof -
  from k have "cleared (od_operation node) \<noteq> []"
    by (rule operation_kind_converts)
  then obtain o1 where o1: "toCamelCase (od_operation node) = Inr o1"
    by (auto simp: toCamelCase_Inr)
  show ?thesis
  proof (cases "od_name node")
    case None
    then show ?thesis by (simp add: parseOperationDefinitionNode_def)
  next
    case (Some m)
    show ?thesis
    proof (cases "cleared m = []")
      case True
      then have "toCamelCase m = Inl TypeError"
        by (simp add: toCamelCase_Inl)
      with Some o1 show ?thesis
        by (simp add: parseOperationDefinitionNode_def getCompiledOperationName_def
              getCompiledOperationNamespaceName_def)
    next
      case False
      then obtain m1 where m1: "toCamelCase m = Inr m1"
        by (auto simp: toCamelCase_Inr)
      from f Some False have "\<exists>s\<in>set (od_selectionSet node). isField s"
        by simp
      with Some o1 m1 r show ?thesis
        by (simp add: parseOperationDefinitionNode_def getCompiledOperationName_def
              getCompiledOperationNamespaceName_def selectionSetToRootNamespace_def
              namespaceFields_None Let_def)
    qed
  qed
qed

lemma parseOperation_without_root_returns:
  assumes k: "od_operation node \<in> {''query'', ''mutation'', ''subscription''}"
    and r: "getOperationRootNode schema (od_operation node) = None"
    and n: "od_name node = Some m" "cleared m \<noteq> []"
    and f: "\<forall>s\<in>set (od_selectionSet node). \<not> isField s"
  shows "\<exists>op. parseOperationDefinitionNode node schema str = Inr op
              \<and> ns_fields (o_namespace op) = []"
proof -
  from k have "cleared (od_operation node) \<noteq> []"
    by (rule operation_kind_converts)
  then obtain o1 where o1: "toCamelCase (od_operation node) = Inr o1"
    by (auto simp: toCamelCase_Inr)
  from n obtain m1 where m1: "toCamelCase m = Inr m1"
    by (auto simp: toCamelCase_Inr)
  from n o1 m1 r f show ?thesis
    by (simp add: parseOperationDefinitionNode_def getCompiledOperationName_def
          getCompiledOperationNamespaceName_def selectionSetToRootNamespace_def
          namespaceFields_None Let_def)
qed

text \<open>
  C6 (as the code has it). getOperationRootNode maps each of the kinds query, mutation and
  subscription to what the schema configures as that root, and returns the absent value
  when the schema configures none: it raises nothing. When the root of the operation's
  kind is absent, parseOperationDefinitionNode fails with a TypeError if the selection set
  has a field selection; it returns an operation exactly when the operation has a name
  that leaves a non-empty text and the selection set has no field selection; and its only
  failure is the TypeError.
\<close>

theorem missing_root_is_a_type_error_on_field_selection:
  "getOperationRootNode schema ''query'' = s_queryType schema
   \<and> getOperationRootNode schema ''mutation'' = s_mutationType schema
   \<and> getOperationRootNode schema ''subscription'' = s_subscriptionType schema
   \<and> (od_operation node \<in> {''query'', ''mutation'', ''subscription''}
        \<and> getOperationRootNode schema (od_operation node) = None \<longrightarrow>
        ((\<exists>s\<in>set (od_selectionSet node). isField s) \<longrightarrow>
           parseOperationDefinitionNode node schema str = Inl TypeError)
        \<and> ((\<exists>op. parseOperationDefinitionNode node schema str = Inr op) \<longleftrightarrow>
             (\<exists>n. od_name node = Some n \<and> cleared n \<noteq> [])
             \<and> (\<forall>s\<in>set (od_selectionSet node). \<not> isField s))
        \<and> (\<forall>e. parseOperationDefinitionNode node schema str = Inl e \<longrightarrow> e = TypeError))"
proof -
  have roots: "getOperationRootNode schema ''query'' = s_queryType schema
     \<and> getOperationRootNode schema ''mutation'' = s_mutationType schema
     \<and> getOperationRootNode schema ''subscription'' = s_subscriptionType schema"
    by (simp add: getOperationRootNode_def)
  have rest: "((\<exists>s\<in>set (od_selectionSet node). isField s) \<longrightarrow>
           parseOperationDefinitionNode node schema str = Inl TypeError)
        \<and> ((\<exists>op. parseOperationDefinitionNode node schema str = Inr op) \<longleftrightarrow>
             (\<exists>n. od_name node = Some n \<and> cleared n \<noteq> [])
             \<and> (\<forall>s\<in>set (od_selectionSet node). \<not> isField s))
        \<and> (\<forall>e. parseOperationDefinitionNode node schema str = Inl e \<longrightarrow> e = TypeError)"
    if k: "od_operation node \<in> {''query'', ''mutation'', ''subscription''}"
      and r: "getOperationRootNode schema (od_operation node) = None"
  proof (cases "od_name node = None \<or> cleared (the (od_name node)) = []
            \<or> (\<exists>s\<in>set (od_selectionSet node). isField s)")
    case True
    then have "parseOperationDefinitionNode node schema str = Inl TypeError"
      by (rule parseOperation_without_root_fails [OF k r])
    with True show ?thesis
      by auto
  next
    case False
    then obtain m where m: "od_name node = Some m" "cleared m \<noteq> []"
      and f: "\<forall>s\<in>set (od_selectionSet node). \<not> isField s"
      by auto
    from parseOperation_without_root_returns [OF k r m f, of str]
    obtain op where "parseOperationDefinitionNode node schema str = Inr op"
      by blast
    with m f show ?thesis
      by auto
  qed
  from roots rest show ?thesis
    by blast
qed

theorem missing_root_is_a_type_error_on_field_selection_witness:
  "''mutation'' \<in> {''query'', ''mutation'', ''subscription''}
   \<and> getOperationRootNode queryOnlySchema ''mutation'' = None
   \<and> isField (Field ''deletePost'' None)
   \<and> parseOperationDefinitionNode
        \<lparr>od_name = Some ''M'', od_operation = ''mutation'',
         od_selectionSet = [Field ''deletePost'' None],
         od_variableDefinitions = [], od_loc_start = 0, od_loc_end = 25\<rparr>
        queryOnlySchema ''mutation M { deletePost }'' = Inl TypeError"
proof -
  have r: "getOperationRootNode queryOnlySchema ''mutation'' = None"
    by (simp add: getOperationRootNode_def queryOnlySchema_def)
  with missing_root_is_a_type_error_on_field_selection
         [of queryOnlySchema
             "\<lparr>od_name = Some ''M'', od_operation = ''mutation'',
               od_selectionSet = [Field ''deletePost'' None],
               od_variableDefinitions = [], od_loc_start = 0, od_loc_end = 25\<rparr>"
             "''mutation M { deletePost }''"]
  show ?thesis
    by simp
qed

text \<open>
  C6 as stated fails: on a schema without mutation root, the mutation
  \<open>mutation M { ...F }\<close> is assembled without any error.
\<close>

theorem mutation_without_root_assembled:
  "s_mutationType queryOnlySchema = None
   \<and> parseOperationDefinitionNode
        \<lparr>od_name = Some ''M'', od_operation = ''mutation'',
         od_selectionSet = [FragmentSpread ''F''],
         od_variableDefinitions = [], od_loc_start = 0, od_loc_end = 19\<rparr>
        queryOnlySchema ''mutation M { ...F }'' =
       Inr \<lparr>o_name = ''MMutation'', o_signature = ''mutation M { ...F }'',
            o_selection = \<lparr>po_name = ''MMutation'', po_fields = []\<rparr>,
            o_namespace =
              \<lparr>ns_name = ''MMutation'', ns_fields = [],
               ns_args = \<lparr>po_name = ''Arguments'', po_fields = [], po_importTypes = []\<rparr>,
               ns_importTypes = []\<rparr>,
            o_importTypes = []\<rparr>"
  by (simp add: parseOperationDefinitionNode_def getCompiledOperationName_def
        getCompiledOperationNamespaceName_def toCamelCase_def char_defs queryOnlySchema_def
        getOperationRootNode_def selectionSetToObjectFields_def
        parseOperationVariableDefinitions_def emptyArguments_def
        selectionSetToRootNamespace_def Let_def)

section \<open>Properties of entity extraction\<close>

text \<open>
  C9. Extraction of the example type \<open>PostAuthor\<close> returns an entity with the three flat
  fields \<open>name\<close>, \<open>registeredAt\<close>, \<open>bannedAt\<close> in this order; its namespace field
  \<open>registeredAt\<close> renders as \<open>DateTime\<close> and \<open>bannedAt\<close> as \<open>DateTime | null\<close>; its
  import list is \<open>DateTime\<close>, once.
\<close>

theorem postAuthor_entity:
  "\<exists>e. parseObjectOrInterfaceType examplePostAuthor = Inr e
     \<and> map pf_name (po_fields (e_fields e)) = [''name'', ''registeredAt'', ''bannedAt'']
     \<and> map (\<lambda>f. (nf_name f, nf_type f)) (en_fields (e_namespace e)) =
         [(''name'', ''string''), (''registeredAt'', ''DateTime''),
          (''bannedAt'', ''DateTime | null'')]
     \<and> e_importTypes e = [''DateTime'']"
  by (simp add: parseObjectOrInterfaceType_def examplePostAuthor_def toCamelCase_def char_defs
        objectFieldStep_def emptyEntity_def emptyArguments_def scalar_defs Let_def)

lemma objectFieldStep_fold:
  "map pf_name (po_fields (e_fields (foldl (objectFieldStep fn) acc fs))) =
     map pf_name (po_fields (e_fields acc)) @ map f_name fs
   \<and> map pf_type (po_fields (e_fields (foldl (objectFieldStep fn) acc fs))) =
       map pf_type (po_fields (e_fields acc)) @ map (\<lambda>f. fn @ ''.'' @ f_name f) fs
   \<and> map nf_name (en_fields (e_namespace (foldl (objectFieldStep fn) acc fs))) =
       map nf_name (en_fields (e_namespace acc)) @ map f_name fs
   \<and> en_name (e_namespace (foldl (objectFieldStep fn) acc fs)) = en_name (e_namespace acc)
   \<and> po_name (e_fields (foldl (objectFieldStep fn) acc fs)) = po_name (e_fields acc)"
proof (induction fs arbitrary: acc)
  case Nil
  show ?case by simp
next
  case (Cons f fs)
  show ?case
    by (simp add: Cons.IH [of "objectFieldStep fn acc f"]) (simp add: objectFieldStep_def Let_def)
qed

lemma inputFieldStep_fold:
  "map pf_name (po_fields (e_fields (foldl (inputFieldStep fn) acc fs))) =
     map pf_name (po_fields (e_fields acc)) @ map f_name fs
   \<and> map pf_type (po_fields (e_fields (foldl (inputFieldStep fn) acc fs))) =
       map pf_type (po_fields (e_fields acc)) @ map (\<lambda>f. fn @ ''.'' @ f_name f) fs
   \<and> map nf_name (en_fields (e_namespace (foldl (inputFieldStep fn) acc fs))) =
       map nf_name (en_fields (e_namespace acc)) @ map f_name fs
   \<and> en_name (e_namespace (foldl (inputFieldStep fn) acc fs)) = en_name (e_namespace acc)
   \<and> po_name (e_fields (foldl (inputFieldStep fn) acc fs)) = po_name (e_fields acc)"
proof (induction fs arbitrary: acc)
  case Nil
  show ?case by simp
next
  case (Cons f fs)
  show ?case
    by (simp add: Cons.IH [of "inputFieldStep fn acc f"]) (simp add: inputFieldStep_def Let_def)
qed

lemma entity_fields_agree:
  assumes "map pf_name (po_fields (e_fields e)) =
             map pf_name (po_fields (e_fields (emptyEntity fn d))) @ map f_name fs
           \<and> map pf_type (po_fields (e_fields e)) =
               map pf_type (po_fields (e_fields (emptyEntity fn d)))
                 @ map (\<lambda>f. fn @ ''.'' @ f_name f) fs
           \<and> map nf_name (en_fields (e_namespace e)) =
               map nf_name (en_fields (e_namespace (emptyEntity fn d))) @ map f_name fs
           \<and> en_name (e_namespace e) = en_name (e_namespace (emptyEntity fn d))
           \<and> po_name (e_fields e) = po_name (e_fields (emptyEntity fn d))"
  shows "map pf_name (po_fields (e_fields e)) = map f_name fs
       \<and> map nf_name (en_fields (e_namespace e)) = map f_name fs
       \<and> en_name (e_namespace e) = fn
       \<and> po_name (e_fields e) = fn
       \<and> map pf_type (po_fields (e_fields e)) =
           map (\<lambda>n. en_name (e_namespace e) @ ''.'' @ n) (map nf_name (en_fields (e_namespace e)))"
  using assms by (simp add: emptyEntity_def comp_def)

text \<open>
  C7 (as the code has it). For an entity extracted from an object, interface or input
  object type, the names of the flat fields and the names of the namespace fields are both
  the names of the type's fields in declaration order, so the two sequences are equal, and
  each name occurs once in each when the names of the field map are pairwise different.
  The name of the entity, shared by the flat record and the namespace, is toCamelCase of
  the type's name, and the type of each flat field is the dotted path of that entity name
  and the field name, into the namespace field of the same name.
\<close>

theorem flat_and_namespace_fields_agree:
  assumes "parseObjectOrInterfaceType t = Inr e \<or> parseInputObjectType t = Inr e"
  shows "map pf_name (po_fields (e_fields e)) = map f_name (t_fields t)
       \<and> map nf_name (en_fields (e_namespace e)) = map f_name (t_fields t)
       \<and> map pf_name (po_fields (e_fields e)) = map nf_name (en_fields (e_namespace e))
       \<and> (distinct (map f_name (t_fields t)) \<longrightarrow>
            distinct (map pf_name (po_fields (e_fields e)))
            \<and> distinct (map nf_name (en_fields (e_namespace e))))
       \<and> toCamelCase (t_name t) = Inr (en_name (e_namespace e))
       \<and> po_name (e_fields e) = en_name (e_namespace e)
       \<and> map pf_type (po_fields (e_fields e)) =
           map (\<lambda>n. en_name (e_namespace e) @ ''.'' @ n)
             (map nf_name (en_fields (e_namespace e)))"
proof -
  from assms obtain fn where fn: "toCamelCase (t_name t) = Inr fn"
    and e: "e = foldl (objectFieldStep fn) (emptyEntity fn (t_description t)) (t_fields t)
            \<or> e = foldl (inputFieldStep fn) (emptyEntity fn (t_description t)) (t_fields t)"
    by (auto simp: parseObjectOrInterfaceType_def parseInputObjectType_def split: sum.splits)
  from e have "map pf_name (po_fields (e_fields e)) = map f_name (t_fields t)
       \<and> map nf_name (en_fields (e_namespace e)) = map f_name (t_fields t)
       \<and> en_name (e_namespace e) = fn
       \<and> po_name (e_fields e) = fn
       \<and> map pf_type (po_fields (e_fields e)) =
           map (\<lambda>n. en_name (e_namespace e) @ ''.'' @ n) (map nf_name (en_fields (e_namespace e)))"
  proof
    assume a: "e = foldl (objectFieldStep fn) (emptyEntity fn (t_description t)) (t_fields t)"
    show ?thesis
      by (rule entity_fields_agree) (simp only: a objectFieldStep_fold)
  next
    assume a: "e = foldl (inputFieldStep fn) (emptyEntity fn (t_description t)) (t_fields t)"
    show ?thesis
      by (rule entity_fields_agree) (simp only: a inputFieldStep_fold)
  qed
  with fn show ?thesis
    by (simp del: map_map)
qed

theorem flat_and_namespace_fields_agree_witness:
  "(\<exists>e. parseObjectOrInterfaceType examplePostAuthor = Inr e
      \<and> distinct (map f_name (t_fields examplePostAuthor))
      \<and> map pf_name (po_fields (e_fields e)) = [''name'', ''registeredAt'', ''bannedAt'']
      \<and> map nf_name (en_fields (e_namespace e)) = [''name'', ''registeredAt'', ''bannedAt'']
      \<and> distinct (map nf_name (en_fields (e_namespace e)))
      \<and> map pf_type (po_fields (e_fields e)) =
          [''PostAuthor.name'', ''PostAuthor.registeredAt'', ''PostAuthor.bannedAt''])
   \<and> (\<exists>e. parseInputObjectType examplePostsInput = Inr e
      \<and> map pf_name (po_fields (e_fields e)) = [''limit'', ''offset'']
      \<and> map nf_name (en_fields (e_namespace e)) = [''limit'', ''offset'']
      \<and> map pf_type (po_fields (e_fields e)) = [''PostsInput.limit'', ''PostsInput.offset''])
   \<and> (\<exists>e. parseObjectOrInterfaceType exampleLowercaseUser = Inr e
      \<and> en_name (e_namespace e) = ''User''
      \<and> map nf_name (en_fields (e_namespace e)) = [''id'']
      \<and> map pf_type (po_fields (e_fields e)) = [''User.id''])"
proof -
  have c: "toCamelCase (t_name examplePostAuthor) = Inr ''PostAuthor''"
    by (simp add: examplePostAuthor_def toCamelCase_def char_defs)
  then obtain e where e: "parseObjectOrInterfaceType examplePostAuthor = Inr e"
    by (simp add: parseObjectOrInterfaceType_def)
  have d: "distinct (map f_name (t_fields examplePostAuthor))"
    by (simp add: examplePostAuthor_def)
  have n: "map f_name (t_fields examplePostAuthor) = [''name'', ''registeredAt'', ''bannedAt'']"
    by (simp add: examplePostAuthor_def)
  from e have "parseObjectOrInterfaceType examplePostAuthor = Inr e
               \<or> parseInputObjectType examplePostAuthor = Inr e"
    by simp
  from flat_and_namespace_fields_agree [OF this] c d n e have object: "\<exists>e.
      parseObjectOrInterfaceType examplePostAuthor = Inr e
      \<and> distinct (map f_name (t_fields examplePostAuthor))
      \<and> map pf_name (po_fields (e_fields e)) = [''name'', ''registeredAt'', ''bannedAt'']
      \<and> map nf_name (en_fields (e_namespace e)) = [''name'', ''registeredAt'', ''bannedAt'']
      \<and> distinct (map nf_name (en_fields (e_namespace e)))
      \<and> map pf_type (po_fields (e_fields e)) =
          [''PostAuthor.name'', ''PostAuthor.registeredAt'', ''PostAuthor.bannedAt'']"
    by (simp del: map_map)
  have ci: "toCamelCase (t_name examplePostsInput) = Inr ''PostsInput''"
    by (simp add: examplePostsInput_def toCamelCase_def char_defs)
  then obtain i where i: "parseInputObjectType examplePostsInput = Inr i"
    by (simp add: parseInputObjectType_def)
  have ni: "map f_name (t_fields examplePostsInput) = [''limit'', ''offset'']"
    by (simp add: examplePostsInput_def)
  from i have "parseObjectOrInterfaceType examplePostsInput = Inr i
               \<or> parseInputObjectType examplePostsInput = Inr i"
    by simp
  from flat_and_namespace_fields_agree [OF this] ci ni i have input: "\<exists>e.
      parseInputObjectType examplePostsInput = Inr e
      \<and> map pf_name (po_fields (e_fields e)) = [''limit'', ''offset'']
      \<and> map nf_name (en_fields (e_namespace e)) = [''limit'', ''offset'']
      \<and> map pf_type (po_fields (e_fields e)) = [''PostsInput.limit'', ''PostsInput.offset'']"
    by (simp del: map_map)
  have cu: "toCamelCase (t_name exampleLowercaseUser) = Inr ''User''"
    by (simp add: exampleLowercaseUser_def toCamelCase_def char_defs)
  then obtain u where u: "parseObjectOrInterfaceType exampleLowercaseUser = Inr u"
    by (simp add: parseObjectOrInterfaceType_def)
  have nu: "map f_name (t_fields exampleLowercaseUser) = [''id'']"
    by (simp add: exampleLowercaseUser_def)
  from u have "parseObjectOrInterfaceType exampleLowercaseUser = Inr u
               \<or> parseInputObjectType exampleLowercaseUser = Inr u"
    by simp
  from flat_and_namespace_fields_agree [OF this] cu nu u have lower: "\<exists>e.
      parseObjectOrInterfaceType exampleLowercaseUser = Inr e
      \<and> en_name (e_namespace e) = ''User''
      \<and> map nf_name (en_fields (e_namespace e)) = [''id'']
      \<and> map pf_type (po_fields (e_fields e)) = [''User.id'']"
    by (simp del: map_map)
  from object input lower show ?thesis
    by blast
qed

text \<open>
  C7 as stated fails: for the type named \<open>user\<close> with the field \<open>id\<close>, the type of the
  flat field is \<open>User.id\<close>, which is not the type name, a dot and the field name.
\<close>

theorem lowercase_type_name_is_converted_in_flat_path:
  "t_name exampleLowercaseUser = ''user''
   \<and> parseObjectOrInterfaceType exampleLowercaseUser =
       Inr \<lparr>e_fields =
              \<lparr>po_name = ''User'',
               po_fields = [\<lparr>pf_name = ''id'', pf_description = None, pf_type = ''User.id''\<rparr>]\<rparr>,
            e_namespace =
              \<lparr>en_name = ''User'', en_description = None,
               en_fields =
                 [\<lparr>nf_name = ''id'', nf_description = None,
                   nf_args = Some \<lparr>po_name = ''Arguments'', po_fields = [],
                                   po_importTypes = []\<rparr>,
                   nf_type = ''any''\<rparr>]\<rparr>,
            e_importTypes = []\<rparr>
   \<and> ''User.id'' \<noteq> ''user.id''"
  by (simp add: parseObjectOrInterfaceType_def exampleLowercaseUser_def toCamelCase_def
        char_defs objectFieldStep_def emptyEntity_def emptyArguments_def scalar_defs Let_def)

section \<open>Properties of the import lists\<close>

lemma set_foldl_pushNew: "set (foldl pushNew acc xs) = set acc \<union> set xs"
  by (induction xs arbitrary: acc) (auto simp: pushNew_def)

lemma distinct_foldl_pushNew: "distinct acc \<Longrightarrow> distinct (foldl pushNew acc xs)"
  by (induction xs arbitrary: acc) (auto simp: pushNew_def)

lemma pushCustom_invariant:
  "distinct acc \<Longrightarrow> distinct (pushCustom acc x)"
  "y \<in> set (pushCustom acc x) \<Longrightarrow> y \<in> set acc \<or> \<not> isGQLScalarType y"
  by (auto simp: pushCustom_def split: if_splits)

lemma getIOTypeDefinition_imports:
  "(distinct acc \<longrightarrow> distinct (d_importTypes (getIOTypeDefinition t acc n)))
   \<and> (\<forall>y\<in>set (d_importTypes (getIOTypeDefinition t acc n)). y \<in> set acc \<or> \<not> isGQLScalarType y)"
proof (induction t arbitrary: acc n)
  case (GraphQLNamed x)
  show ?case
    by (auto simp: Let_def dest: pushCustom_invariant)
next
  case (GraphQLList t)
  from GraphQLList [of acc True] show ?case
    by (simp add: Let_def)
next
  case (GraphQLNonNull t)
  from GraphQLNonNull [of acc False] show ?case
    by simp
qed

lemma getIOTypeDefinition_fresh:
  "distinct (d_importTypes (getIOTypeDefinition t [] n))
   \<and> (\<forall>y\<in>set (d_importTypes (getIOTypeDefinition t [] n)). \<not> isGQLScalarType y)"
  using getIOTypeDefinition_imports [of "[]" t n] by simp

lemma getTypeNodeDefinition_fresh:
  "distinct (d_importTypes (getTypeNodeDefinition node [] n))
   \<and> (\<forall>y\<in>set (d_importTypes (getTypeNodeDefinition node [] n)). \<not> isGQLScalarType y)"
  using getIOTypeDefinition_fresh [of "typeFromAST node" n]
  by (simp add: getIOTypeDefinition_typeFromAST)

lemma argumentStep_fold:
  "distinct (po_importTypes acc) \<Longrightarrow> \<forall>y\<in>set (po_importTypes acc). \<not> isGQLScalarType y \<Longrightarrow>
     distinct (po_importTypes (foldl argumentStep acc args))
     \<and> (\<forall>y\<in>set (po_importTypes (foldl argumentStep acc args)). \<not> isGQLScalarType y)"
proof (induction args arbitrary: acc)
  case Nil
  then show ?case by simp
next
  case (Cons a args)
  have "distinct (po_importTypes (argumentStep acc a))
        \<and> (\<forall>y\<in>set (po_importTypes (argumentStep acc a)). \<not> isGQLScalarType y)"
    using Cons.prems getIOTypeDefinition_fresh [of "a_type a" True]
    by (auto simp: argumentStep_def Let_def distinct_foldl_pushNew set_foldl_pushNew)
  with Cons.IH [of "argumentStep acc a"] show ?case
    by simp
qed

lemma variableStep_fold:
  "distinct (po_importTypes acc) \<Longrightarrow> \<forall>y\<in>set (po_importTypes acc). \<not> isGQLScalarType y \<Longrightarrow>
     distinct (po_importTypes (foldl variableStep acc vs))
     \<and> (\<forall>y\<in>set (po_importTypes (foldl variableStep acc vs)). \<not> isGQLScalarType y)"
proof (induction vs arbitrary: acc)
  case Nil
  then show ?case by simp
next
  case (Cons a vs)
  have "distinct (po_importTypes (variableStep acc a))
        \<and> (\<forall>y\<in>set (po_importTypes (variableStep acc a)). \<not> isGQLScalarType y)"
    using Cons.prems getTypeNodeDefinition_fresh [of "vd_type a" True]
    by (auto simp: variableStep_def Let_def distinct_foldl_pushNew set_foldl_pushNew)
  with Cons.IH [of "variableStep acc a"] show ?case
    by simp
qed

lemma objectFieldStep_imports:
  "distinct (e_importTypes acc) \<Longrightarrow> \<forall>y\<in>set (e_importTypes acc). \<not> isGQLScalarType y \<Longrightarrow>
     distinct (e_importTypes (foldl (objectFieldStep fn) acc fs))
     \<and> (\<forall>y\<in>set (e_importTypes (foldl (objectFieldStep fn) acc fs)). \<not> isGQLScalarType y)"
proof (induction fs arbitrary: acc)
  case Nil
  then show ?case by simp
next
  case (Cons f fs)
  have "distinct (e_importTypes (objectFieldStep fn acc f))
        \<and> (\<forall>y\<in>set (e_importTypes (objectFieldStep fn acc f)). \<not> isGQLScalarType y)"
    using Cons.prems getIOTypeDefinition_fresh [of "f_type f" True]
      argumentStep_fold [of emptyArguments "f_args f"]
    by (auto simp: objectFieldStep_def Let_def distinct_foldl_pushNew set_foldl_pushNew
          emptyArguments_def)
  with Cons.IH [of "objectFieldStep fn acc f"] show ?case
    by simp
qed

lemma inputFieldStep_imports:
  "distinct (e_importTypes acc) \<Longrightarrow> \<forall>y\<in>set (e_importTypes acc). \<not> isGQLScalarType y \<Longrightarrow>
     distinct (e_importTypes (foldl (inputFieldStep fn) acc fs))
     \<and> (\<forall>y\<in>set (e_importTypes (foldl (inputFieldStep fn) acc fs)). \<not> isGQLScalarType y)"
proof (induction fs arbitrary: acc)
  case Nil
  then show ?case by simp
next
  case (Cons f fs)
  have "distinct (e_importTypes (inputFieldStep fn acc f))
        \<and> (\<forall>y\<in>set (e_importTypes (inputFieldStep fn acc f)). \<not> isGQLScalarType y)"
    using Cons.prems getIOTypeDefinition_fresh [of "f_type f" True]
    by (auto simp: inputFieldStep_def Let_def distinct_foldl_pushNew set_foldl_pushNew)
  with Cons.IH [of "inputFieldStep fn acc f"] show ?case
    by simp
qed

lemma entity_imports:
  assumes "parseObjectOrInterfaceType t = Inr e \<or> parseInputObjectType t = Inr e"
  shows "distinct (e_importTypes e) \<and> (\<forall>y\<in>set (e_importTypes e). \<not> isGQLScalarType y)"
proof -
  from assms obtain fn where
    "e = foldl (objectFieldStep fn) (emptyEntity fn (t_description t)) (t_fields t)
     \<or> e = foldl (inputFieldStep fn) (emptyEntity fn (t_description t)) (t_fields t)"
    by (auto simp: parseObjectOrInterfaceType_def parseInputObjectType_def split: sum.splits)
  moreover have "distinct (e_importTypes (emptyEntity fn (t_description t)))"
    "\<forall>y\<in>set (e_importTypes (emptyEntity fn (t_description t))). \<not> isGQLScalarType y"
    by (simp_all add: emptyEntity_def)
  ultimately show ?thesis
    using objectFieldStep_imports inputFieldStep_imports by blast
qed

lemma getImportTypes_distinct: "distinct (getImportTypes f)"
  by (cases f) (simp_all add: distinct_foldl_pushNew)

lemma operation_imports_distinct:
  assumes "parseOperationDefinitionNode node schema str = Inr op"
  shows "distinct (o_importTypes op)"
proof -
  from assms obtain xs ys where "o_importTypes op = foldl pushNew (foldl pushNew [] xs) ys"
    by (auto simp: parseOperationDefinitionNode_def Let_def split: option.splits sum.splits)
  then show ?thesis
    by (simp add: distinct_foldl_pushNew)
qed


text \<open>
  C3 (failing input). The query
  \<open>query Q { post { createdAt } posts { createdAt } }\<close> on the example schema:
  selectionSetToRootNamespace concatenates the import lists of the two top-level fields
  (\<open>flatMap\<close>) and does not remove duplicates, so the import list of the root namespace is
  \<open>DateTime, DateTime\<close>. The lemmas above show the other import lists (of the resolvers
  on a fresh accumulator, of the extracted entity, of getImportTypes on one field, of the
  operation) free of duplicates.
\<close>

theorem root_namespace_imports_duplicate:
  "\<exists>ns. selectionSetToRootNamespace exampleTypeMap
          [Field ''post'' (Some [Field ''createdAt'' None]),
           Field ''posts'' (Some [Field ''createdAt'' None])]
          ''QQuery'' emptyArguments (Some exampleQuery) = Inr ns
        \<and> ns_importTypes ns = [''DateTime'', ''DateTime'']
        \<and> \<not> distinct (ns_importTypes ns)"
  by (simp add: selectionSetToRootNamespace_def getIn_def lookupField_def toConfigFields_def
        toFieldConfig_def toArgumentConfig_def exampleTypeMap_def exampleQuery_def
        examplePostedPost_def leafType_def scalar_defs Let_def selectionSetToObjectFields_def)

end
